theory Spec2Isabelle
  imports Complex_Main
begin

section \<open>Numbers and strings of the host language\<close>

text \<open>
  The program is JavaScript. Its numbers are modelled as real numbers: sums, products,
  quotients, \<open>Math.exp\<close>, \<open>Math.log\<close> and \<open>Math.sqrt\<close> are the exact operations, and
  \<open>NaN\<close> and the infinities have no counterpart. Strings are byte strings; case folding
  and the character classes \<open>\w\<close> and \<open>\s\<close> are the ASCII ones.
\<close>

definition toLowerCase_char :: "char \<Rightarrow> char" where
  "toLowerCase_char c =
     (case map_of (zip ''ABCDEFGHIJKLMNOPQRSTUVWXYZ'' ''abcdefghijklmnopqrstuvwxyz'') c of
        Some l \<Rightarrow> l
      | None \<Rightarrow> c)"

definition toLowerCase :: "string \<Rightarrow> string" where
  "toLowerCase s = map toLowerCase_char s"

definition is_word_char :: "char \<Rightarrow> bool" where
  \<comment> \<open>the class \<open>\w\<close>: letters, digits and the underscore\<close>
  "is_word_char c =
     (let n = (of_char c :: nat)
      in (48 \<le> n \<and> n \<le> 57) \<or> (65 \<le> n \<and> n \<le> 90) \<or> (97 \<le> n \<and> n \<le> 122) \<or> n = 95)"

definition is_space_char :: "char \<Rightarrow> bool" where
  \<comment> \<open>the class \<open>\s\<close>: tab, line feed, vertical tab, form feed, carriage return, space\<close>
  "is_space_char c = (let n = (of_char c :: nat) in (9 \<le> n \<and> n \<le> 13) \<or> n = 32)"

definition is_digit_char :: "char \<Rightarrow> bool" where
  "is_digit_char c = (let n = (of_char c :: nat) in 48 \<le> n \<and> n \<le> 57)"

definition startsWith :: "string \<Rightarrow> string \<Rightarrow> bool" where
  "startsWith s p = (take (length p) s = p)"

fun includes_str :: "string \<Rightarrow> string \<Rightarrow> bool" where
  \<comment> \<open>\<open>s.includes(p)\<close>: \<open>p\<close> occurs in \<open>s\<close> as a contiguous substring\<close>
  "includes_str [] p = (p = [])"
| "includes_str (c # cs) p = (startsWith (c # cs) p \<or> includes_str cs p)"

definition trim :: "string \<Rightarrow> string" where
  "trim s = rev (dropWhile is_space_char (rev (dropWhile is_space_char s)))"

function collapse_ws :: "string \<Rightarrow> string" where
  \<comment> \<open>\<open>s.replace(/\s+/g, " ")\<close>: every maximal run of white space becomes one space\<close>
  "collapse_ws [] = []"
| "collapse_ws (c # cs) =
     (if is_space_char c then CHR '' '' # collapse_ws (dropWhile is_space_char cs)
      else c # collapse_ws cs)"
  by pat_completeness auto
termination
  by (relation "measure length") (auto simp: length_dropWhile_le less_Suc_eq_le)

definition strip_punct :: "string \<Rightarrow> string" where
  \<comment> \<open>\<open>s.replace(/[^\w\s]/g, " ")\<close>\<close>
  "strip_punct s = map (\<lambda>c. if is_word_char c \<or> is_space_char c then c else CHR '' '') s"

fun split_space :: "string \<Rightarrow> string list" where
  \<comment> \<open>\<open>s.split(" ")\<close>; the empty string splits into one empty token\<close>
  "split_space [] = [[]]"
| "split_space (c # cs) =
     (if c = CHR '' '' then [] # split_space cs
      else (case split_space cs of t # ts \<Rightarrow> (c # t) # ts | [] \<Rightarrow> [[c]]))"

definition toFixed :: "nat \<Rightarrow> real \<Rightarrow> real" where
  \<comment> \<open>\<open>Number(x.toFixed(d))\<close>: the nearest multiple of \<open>10^-d\<close>, a tie going away from
      zero; from \<open>10^21\<close> on the number is printed in full\<close>
  "toFixed d x =
     (if 10 ^ 21 \<le> \<bar>x\<bar> then x
      else if x < 0 then - (real_of_int \<lfloor>- x * 10 ^ d + 1 / 2\<rfloor> / 10 ^ d)
      else real_of_int \<lfloor>x * 10 ^ d + 1 / 2\<rfloor> / 10 ^ d)"

text \<open>
  A plain object used as a dictionary is an association list in insertion order with
  distinct keys. \<open>Object.entries\<close> lists the keys that are array indices first, in
  ascending numeric order, and then the other keys in insertion order. Keys inherited
  from \<open>Object.prototype\<close> (such as \<open>toString\<close>) are outside the model.
\<close>

definition digits_value :: "string \<Rightarrow> nat" where
  "digits_value k = foldl (\<lambda>acc c. 10 * acc + (of_char c - 48)) 0 k"

definition array_index :: "string \<Rightarrow> nat option" where
  "array_index k =
     (if k \<noteq> [] \<and> list_all is_digit_char k \<and> (k = ''0'' \<or> hd k \<noteq> CHR ''0'')
         \<and> digits_value k < 2 ^ 32 - 1
      then Some (digits_value k) else None)"

definition Object_entries :: "(string \<times> 'a) list \<Rightarrow> (string \<times> 'a) list" where
  "Object_entries kvs =
     sort_key (\<lambda>(k, v). case array_index k of Some n \<Rightarrow> n | None \<Rightarrow> 0)
       (filter (\<lambda>(k, v). array_index k \<noteq> None) kvs)
     @ filter (\<lambda>(k, v). array_index k = None) kvs"

fun upsert :: "string \<Rightarrow> 'a \<Rightarrow> ('a \<Rightarrow> 'a) \<Rightarrow> (string \<times> 'a) list \<Rightarrow> (string \<times> 'a) list" where
  \<comment> \<open>\<open>if (!obj[k]) obj[k] = init\<close> followed by an update of \<open>obj[k]\<close>: a new key goes
      to the end, an old key keeps its place\<close>
  "upsert k init f [] = [(k, f init)]"
| "upsert k init f ((k', v) # kvs) =
     (if k' = k then (k', f v) # kvs else (k', v) # upsert k init f kvs)"

section \<open>Aggregation engine: \<open>computeAdjustedAggregates\<close>\<close>

text \<open>
  The function guards every field it reads, so its input records have optional fields:
  \<open>None\<close> stands for a field that is absent or fails the guard of the source
  (\<open>typeof r.rating === "number"\<close>, \<open>Array.isArray(r.themes)\<close>, \<open>typeof t === "string"\<close>).
  An array element that is \<open>null\<close> is replaced by \<open>{}\<close> in the source and is the record
  with every field \<open>None\<close>. The field \<open>matched_words\<close> is read into a variable that is
  never used and is left out.
\<close>

record sentiment_obj =
  o_confidence :: "real option"

record feedback_obj =
  o_rating :: "real option"
  o_sentiment :: "sentiment_obj option"
  o_themes :: "string option list option"
  o_review_text :: "string option"
  o_created_at :: "string option"

record opts =
  halfLifeDays :: "real option"
  minConfidence :: "real option"
  neutralFactor :: "real option"
  phraseLimit :: "nat option"

record config =
  c_halfLifeDays :: real
  c_minConfidence :: real
  c_neutralFactor :: real
  c_phraseLimit :: nat

definition destructure :: "opts \<Rightarrow> config" where
  \<comment> \<open>the destructuring defaults at the head of the function\<close>
  "destructure os =
     \<lparr> c_halfLifeDays = (case halfLifeDays os of Some h \<Rightarrow> h | None \<Rightarrow> 30),
       c_minConfidence = (case minConfidence os of Some m \<Rightarrow> m | None \<Rightarrow> 2 / 10),
       c_neutralFactor = (case neutralFactor os of Some f \<Rightarrow> f | None \<Rightarrow> 1 / 2),
       c_phraseLimit = (case phraseLimit os of Some p \<Rightarrow> p | None \<Rightarrow> 200) \<rparr>"

definition tiny :: real where
  "tiny = 1 / 10 ^ 9"

text \<open>
  The clock and the date parser are inputs: \<open>now\<close> is \<open>Date.now()\<close> in milliseconds and
  \<open>parse\<close> is \<open>Date.parse\<close>, returning \<open>None\<close> where the source gets \<open>NaN\<close>.
\<close>

definition daysSince :: "real \<Rightarrow> (string \<Rightarrow> real option) \<Rightarrow> string option \<Rightarrow> real" where
  "daysSince now parse created =
     (case created of
        None \<Rightarrow> 9999
      | Some s \<Rightarrow>
          if s = [] then 9999
          else (case parse s of None \<Rightarrow> 9999 | Some t \<Rightarrow> (now - t) / (1000 * 3600 * 24)))"

definition timeWeight :: "config \<Rightarrow> real \<Rightarrow> real" where
  "timeWeight cfg days = exp (- ln 2 * days / c_halfLifeDays cfg)"

definition sanitizeText :: "string \<Rightarrow> string" where
  "sanitizeText s = trim (collapse_ws (strip_punct (toLowerCase s)))"

definition fingerprint :: "string \<Rightarrow> string" where
  "fingerprint s = collapse_ws (sanitizeText s)"

definition text_or_empty :: "feedback_obj \<Rightarrow> string" where
  \<comment> \<open>\<open>r.review_text || ""\<close>\<close>
  "text_or_empty r = (case o_review_text r of Some s \<Rightarrow> s | None \<Rightarrow> [])"

definition rating_or_3 :: "feedback_obj \<Rightarrow> real" where
  \<comment> \<open>\<open>typeof r.rating === "number" ? r.rating : 3\<close>\<close>
  "rating_or_3 r = (case o_rating r of Some x \<Rightarrow> x | None \<Rightarrow> 3)"

definition c_raw :: "feedback_obj \<Rightarrow> real" where
  "c_raw r =
     (case o_sentiment r of
        None \<Rightarrow> 0
      | Some s \<Rightarrow> (case o_confidence s of Some c \<Rightarrow> c | None \<Rightarrow> 0))"

definition prev_count :: "(string \<Rightarrow> nat option) \<Rightarrow> string \<Rightarrow> nat" where
  \<comment> \<open>\<open>dedupeMap.get(fp) || 0\<close>\<close>
  "prev_count dm fp = (case dm fp of Some n \<Rightarrow> n | None \<Rightarrow> 0)"

definition dedupeFactor :: "(string \<Rightarrow> nat option) \<Rightarrow> feedback_obj \<Rightarrow> real" where
  "dedupeFactor dm r = 1 / sqrt (real (prev_count dm (fingerprint (text_or_empty r)) + 1))"

definition reviewWeight ::
  "real \<Rightarrow> (string \<Rightarrow> real option) \<Rightarrow> config \<Rightarrow> (string \<Rightarrow> nat option) \<Rightarrow> feedback_obj \<Rightarrow> real"
where
  "reviewWeight now parse cfg dm r =
     max (c_raw r) (c_minConfidence cfg)
       * timeWeight cfg (daysSince now parse (o_created_at r))
       * dedupeFactor dm r"

definition s_final :: "feedback_obj \<Rightarrow> real" where
  \<comment> \<open>\<open>s_rating = (rating - 3) / 2\<close>, and \<open>s_final = s_rating\<close>\<close>
  "s_final r = (rating_or_3 r - 3) / 2"

definition posContrib :: "real \<Rightarrow> feedback_obj \<Rightarrow> real" where
  "posContrib w r = max 0 (s_final r) * w"

definition negContrib :: "real \<Rightarrow> feedback_obj \<Rightarrow> real" where
  "negContrib w r = max 0 (- s_final r) * w"

definition neuContrib :: "config \<Rightarrow> real \<Rightarrow> feedback_obj \<Rightarrow> real" where
  "neuContrib cfg w r = (1 - \<bar>s_final r\<bar>) * w * c_neutralFactor cfg"

subsection \<open>Theme accumulators\<close>

record theme_acc =
  weightedCount :: real
  effCount :: real
  negTexts :: "string list"

definition new_acc :: theme_acc where
  "new_acc = \<lparr> weightedCount = 0, effCount = 0, negTexts = [] \<rparr>"

definition credit_in ::
  "string \<Rightarrow> (theme_acc \<Rightarrow> theme_acc) \<Rightarrow> (string \<times> theme_acc) list \<Rightarrow> (string \<times> theme_acc) list"
where
  \<comment> \<open>\<open>if (!themeMap[name]) themeMap[name] = {...}\<close>, then the update of \<open>themeMap[name]\<close>\<close>
  "credit_in name f tm = upsert name new_acc f tm"

definition theme_list :: "feedback_obj \<Rightarrow> string option list" where
  \<comment> \<open>\<open>Array.isArray(r.themes) && r.themes.length ? r.themes : ["Other"]\<close>\<close>
  "theme_list r =
     (case o_themes r of
        None \<Rightarrow> [Some ''Other'']
      | Some ts \<Rightarrow> if ts = [] then [Some ''Other''] else ts)"

definition theme_name :: "string option \<Rightarrow> string" where
  \<comment> \<open>\<open>(typeof t === "string" && t.trim()) ? t.trim() : "Other"\<close>\<close>
  "theme_name t =
     (case t of
        None \<Rightarrow> ''Other''
      | Some s \<Rightarrow> if trim s \<noteq> [] then trim s else ''Other'')"

definition credit :: "config \<Rightarrow> feedback_obj \<Rightarrow> real \<Rightarrow> theme_acc \<Rightarrow> theme_acc" where
  "credit cfg r w a =
     (let a' = a \<lparr> weightedCount := weightedCount a + w, effCount := effCount a + w \<rparr>
      in if s_final r < - (1 / 10) \<and> text_or_empty r \<noteq> []
            \<and> length (negTexts a') < c_phraseLimit cfg
         then a' \<lparr> negTexts := negTexts a' @ [text_or_empty r] \<rparr>
         else a')"

definition frac :: "feedback_obj \<Rightarrow> real" where
  "frac r = 1 / real (length (theme_list r))"

definition credit_themes ::
  "config \<Rightarrow> feedback_obj \<Rightarrow> real \<Rightarrow> (string \<times> theme_acc) list \<Rightarrow> (string \<times> theme_acc) list"
where
  \<comment> \<open>the inner loop \<open>for (const t of themes)\<close>, with \<open>w = reviewWeight * frac\<close>\<close>
  "credit_themes cfg r rw tm =
     foldl (\<lambda>m t. credit_in (theme_name t) (credit cfg r (rw * frac r)) m) tm (theme_list r)"

subsection \<open>The main loop\<close>

record agg_state =
  rawPos :: real
  rawNeg :: real
  rawNeu :: real
  totalEff :: real
  themeMap :: "(string \<times> theme_acc) list"
  dedupeMap :: "string \<Rightarrow> nat option"

definition init_state :: agg_state where
  "init_state =
     \<lparr> rawPos = 0, rawNeg = 0, rawNeu = 0, totalEff = 0, themeMap = [], dedupeMap = Map.empty \<rparr>"

definition process_record ::
  "real \<Rightarrow> (string \<Rightarrow> real option) \<Rightarrow> config \<Rightarrow> agg_state \<Rightarrow> feedback_obj \<Rightarrow> agg_state"
where
  \<comment> \<open>one iteration of \<open>for (let i = 0; i < allFeedback.length; ++i)\<close>\<close>
  "process_record now parse cfg st r =
     (let fp = fingerprint (text_or_empty r);
          w = reviewWeight now parse cfg (dedupeMap st) r
      in \<lparr> rawPos = rawPos st + posContrib w r,
           rawNeg = rawNeg st + negContrib w r,
           rawNeu = rawNeu st + neuContrib cfg w r,
           totalEff = totalEff st + w,
           themeMap = credit_themes cfg r w (themeMap st),
           dedupeMap = (dedupeMap st)(fp \<mapsto> prev_count (dedupeMap st) fp + 1) \<rparr>)"

definition process_all ::
  "real \<Rightarrow> (string \<Rightarrow> real option) \<Rightarrow> config \<Rightarrow> feedback_obj list \<Rightarrow> agg_state"
where
  "process_all now parse cfg allFeedback = foldl (process_record now parse cfg) init_state allFeedback"

subsection \<open>Phrase extraction\<close>

definition stopWords :: "string list" where
  "stopWords =
     [''the'', ''and'', ''is'', ''it'', ''to'', ''a'', ''for'', ''of'', ''in'', ''on'', ''this'',
      ''that'', ''with'', ''was'', ''are'', ''very'', ''not'', ''no'', ''i'']"

definition tokens_of :: "string \<Rightarrow> string list" where
  "tokens_of ttext =
     filter (\<lambda>tok. tok \<noteq> [] \<and> tok \<notin> set stopWords) (split_space (sanitizeText ttext))"

fun grams :: "string list \<Rightarrow> string list" where
  \<comment> \<open>at every position the 2-gram and then the 3-gram that start there\<close>
  "grams (a # b # c # rest) =
     (a @ '' '' @ b) # (a @ '' '' @ b @ '' '' @ c) # grams (b # c # rest)"
| "grams [a, b] = [a @ '' '' @ b]"
| "grams [a] = []"
| "grams [] = []"

fun count_gram :: "string \<Rightarrow> (string \<times> nat) list \<Rightarrow> (string \<times> nat) list" where
  \<comment> \<open>\<open>gramCounts.set(g, (gramCounts.get(g) || 0) + 1)\<close> on a map in insertion order\<close>
  "count_gram g [] = [(g, 1)]"
| "count_gram g ((k, n) # kvs) =
     (if k = g then (k, n + 1) # kvs else (k, n) # count_gram g kvs)"

definition slice_last :: "nat \<Rightarrow> 'a list \<Rightarrow> 'a list" where
  \<comment> \<open>\<open>texts.slice(-n)\<close>; \<open>slice(-0)\<close> is the whole array\<close>
  "slice_last n xs = (if n = 0 then xs else drop (length xs - n) xs)"

definition gramCounts :: "config \<Rightarrow> string list \<Rightarrow> (string \<times> nat) list" where
  "gramCounts cfg texts =
     foldl (\<lambda>m g. count_gram g m) []
       (concat (map (\<lambda>ttext. grams (tokens_of ttext)) (slice_last (c_phraseLimit cfg) texts)))"

definition topPhrases :: "config \<Rightarrow> string list \<Rightarrow> (string \<times> nat) list" where
  \<comment> \<open>the stable sort by descending count, then \<open>slice(0, 4)\<close>\<close>
  "topPhrases cfg texts = take 4 (sort_key (\<lambda>(phrase, n). - int n) (gramCounts cfg texts))"

subsection \<open>The returned object\<close>

record adjusted_sentiment =
  positive :: real
  negative :: real
  neutral :: real
  rawPositive :: real
  rawNegative :: real
  rawNeutral :: real
  totalEffective :: real

record theme_stat =
  stat_effCount :: real
  stat_confidence :: real

record theme_output =
  positiveThemes :: "(string \<times> real) list"
  negativeThemes :: "(string \<times> real) list"
  themeStats :: "(string \<times> theme_stat) list"

record aggregates =
  out_sentiment :: adjusted_sentiment
  out_themes :: theme_output
  topPhrasesByTheme :: "(string \<times> (string \<times> nat) list) list"
  insufficientData :: bool

definition weightedTotal :: "agg_state \<Rightarrow> real" where
  "weightedTotal st = rawPos st + rawNeg st + rawNeu st + tiny"

definition positivePct :: "agg_state \<Rightarrow> real" where
  "positivePct st = rawPos st / weightedTotal st"

definition negativePct :: "agg_state \<Rightarrow> real" where
  "negativePct st = rawNeg st / weightedTotal st"

definition neutralPct :: "agg_state \<Rightarrow> real" where
  "neutralPct st = rawNeu st / weightedTotal st"

definition theme_confidence :: "theme_acc \<Rightarrow> real" where
  \<comment> \<open>\<open>Math.min(1, Math.log2(effCount + 1) / 4)\<close>\<close>
  "theme_confidence d = min 1 (log 2 (effCount d + 1) / 4)"

definition computeAdjustedAggregates ::
  "real \<Rightarrow> (string \<Rightarrow> real option) \<Rightarrow> feedback_obj list \<Rightarrow> opts \<Rightarrow> aggregates"
where
  "computeAdjustedAggregates now parse allFeedback os =
     (let cfg = destructure os;
          st = process_all now parse cfg allFeedback;
          entries = Object_entries (themeMap st)
      in \<lparr> out_sentiment =
             \<lparr> positive = toFixed 4 (positivePct st),
               negative = toFixed 4 (negativePct st),
               neutral = toFixed 4 (neutralPct st),
               rawPositive = toFixed 4 (rawPos st),
               rawNegative = toFixed 4 (rawNeg st),
               rawNeutral = toFixed 4 (rawNeu st),
               totalEffective = toFixed 3 (totalEff st) \<rparr>,
           out_themes =
             \<lparr> positiveThemes = map (\<lambda>(name, d). (name, toFixed 4 (effCount d))) entries,
               negativeThemes = [],
               themeStats =
                 map (\<lambda>(name, d).
                        (name, \<lparr> stat_effCount = toFixed 3 (effCount d),
                                 stat_confidence = toFixed 3 (theme_confidence d) \<rparr>))
                     entries \<rparr>,
           topPhrasesByTheme = map (\<lambda>(name, d). (name, topPhrases cfg (negTexts d))) entries,
           insufficientData = (totalEff st < 5) \<rparr>)"

subsection \<open>Quantities of one iteration\<close>

text \<open>
  The state in which iteration \<open>i\<close> starts is the state after the first \<open>i\<close> records; the
  local variables \<open>reviewWeight\<close> and \<open>dedupeFactor\<close> of that iteration are computed in it.
\<close>

definition state_at ::
  "real \<Rightarrow> (string \<Rightarrow> real option) \<Rightarrow> config \<Rightarrow> feedback_obj list \<Rightarrow> nat \<Rightarrow> agg_state"
where
  "state_at now parse cfg rs i = process_all now parse cfg (take i rs)"

definition weight_at ::
  "real \<Rightarrow> (string \<Rightarrow> real option) \<Rightarrow> config \<Rightarrow> feedback_obj list \<Rightarrow> nat \<Rightarrow> real"
where
  "weight_at now parse cfg rs i =
     reviewWeight now parse cfg (dedupeMap (state_at now parse cfg rs i)) (rs ! i)"

definition dedupe_at ::
  "real \<Rightarrow> (string \<Rightarrow> real option) \<Rightarrow> config \<Rightarrow> feedback_obj list \<Rightarrow> nat \<Rightarrow> real"
where
  "dedupe_at now parse cfg rs i = dedupeFactor (dedupeMap (state_at now parse cfg rs i)) (rs ! i)"

definition fp_of :: "feedback_obj \<Rightarrow> string" where
  "fp_of r = fingerprint (text_or_empty r)"

definition earlier_same :: "feedback_obj list \<Rightarrow> nat \<Rightarrow> nat" where
  \<comment> \<open>how many records before position \<open>i\<close> have the fingerprint of record \<open>i\<close>\<close>
  "earlier_same rs i = length (filter (\<lambda>r. fp_of r = fp_of (rs ! i)) (take i rs))"

definition weightedCount_of :: "(string \<times> theme_acc) list \<Rightarrow> string \<Rightarrow> real" where
  \<comment> \<open>the weighted count of a theme, zero while the theme has no entry\<close>
  "weightedCount_of tm name = (case map_of tm name of Some a \<Rightarrow> weightedCount a | None \<Rightarrow> 0)"

definition effCount_of :: "(string \<times> theme_acc) list \<Rightarrow> string \<Rightarrow> real" where
  \<comment> \<open>the effective count of a theme, from which the returned theme numbers are built;
      zero while the theme has no entry\<close>
  "effCount_of tm name = (case map_of tm name of Some a \<Rightarrow> effCount a | None \<Rightarrow> 0)"

section \<open>Insight rule engine: the \<open>InsightGenerator\<close> component\<close>

text \<open>
  The analysis functions read the fields of a record without guards, so their input is the
  feedback record of the data model. The aggregate snapshots and the record collection
  are optional: \<open>None\<close> is a value that is \<open>null\<close> or \<open>undefined\<close>.
\<close>

datatype label = Positive | Negative | Neutral

record sentiment =
  label :: label
  score :: real
  confidence :: real
  matched_words :: "string list"

record feedback =
  product_id :: string
  rating :: real
  review_text :: string
  created_at :: string
  sentiment :: sentiment
  themes :: "string list"

record sentiment_data =
  total :: real
  sd_positive :: real
  sd_negative :: real
  sd_neutral :: real
  average_score :: real
  average_confidence :: real

type_synonym theme_data = "(string \<times> real) list"

datatype priority = Critical | High | Medium | Low

text \<open>
  A template literal is kept as its pieces: fixed text, a number printed as it is, and a
  number printed with \<open>toFixed\<close> and the given count of decimals.
\<close>

datatype frag = Txt string | Num real | Fixed nat real

record insight =
  category :: string
  itype :: string
  message :: string
  detail :: "frag list"
  action :: string
  priority :: priority
  iconfidence :: real
  impact :: string
  effort :: string

definition analyzeOverallHealth :: "sentiment_data option \<Rightarrow> insight list" where
  "analyzeOverallHealth sData =
     (case sData of
        None \<Rightarrow> []
      | Some sd \<Rightarrow>
          if sd_negative sd > sd_positive sd
          then [\<lparr> category = ''Overall Health'', itype = ''warning'',
                  message = ''Negative Feedback Outweighs Positive'',
                  detail = [Num (sd_negative sd), Txt '' negative vs '', Num (sd_positive sd),
                            Txt '' positive reviews.''],
                  action = ''Investigate recent product batches or service issues.'',
                  priority = High, iconfidence = 85 / 100, impact = ''high'',
                  effort = ''medium'' \<rparr>]
          else [])"

record theme_stats =
  st_total :: nat
  st_negative :: nat
  percentage :: real

definition getThemeStats :: "feedback list \<Rightarrow> string \<Rightarrow> theme_stats option" where
  "getThemeStats fb themeName =
     (let themeReviews = filter (\<lambda>f. themeName \<in> set (themes f)) fb;
          n = length themeReviews
      in if n = 0 then None
         else (let neg = length (filter (\<lambda>f. label (sentiment f) = Negative) themeReviews)
               in Some \<lparr> st_total = n, st_negative = neg,
                         percentage = real neg / real n * 100 \<rparr>))"

definition durability_insight :: "theme_stats \<Rightarrow> insight" where
  "durability_insight d =
     \<lparr> category = ''Product Quality'', itype = ''durability'',
       message = ''High Durability Concerns'',
       detail = [Fixed 1 (percentage d), Txt ''% of durability mentions are negative ('',
                 Num (real (st_negative d)), Txt ''/'', Num (real (st_total d)), Txt '').''],
       action = ''Review manufacturing quality control and material strength.'',
       priority = High, iconfidence = 85 / 100, impact = ''high'', effort = ''high'' \<rparr>"

definition comfort_insight :: "theme_stats \<Rightarrow> insight" where
  "comfort_insight c =
     \<lparr> category = ''Product Design'', itype = ''comfort'',
       message = ''Comfort Issues Detected'',
       detail = [Fixed 1 (percentage c), Txt ''% of comfort mentions are negative.''],
       action = ''Evaluate product weight and fit.'',
       priority = Medium, iconfidence = 8 / 10, impact = ''medium'', effort = ''medium'' \<rparr>"

definition appearance_insight :: "theme_stats \<Rightarrow> insight" where
  "appearance_insight a =
     \<lparr> category = ''Aesthetics'', itype = ''appearance'',
       message = ''Appearance/Finish Dissatisfaction'',
       detail = [Txt ''Significant dissatisfaction with product look ('',
                 Fixed 1 (percentage a), Txt ''% negative).''],
       action = ''Check finishing process and product photography accuracy.'',
       priority = High, iconfidence = 9 / 10, impact = ''high'', effort = ''medium'' \<rparr>"

definition theme_rule ::
  "feedback list \<Rightarrow> string \<Rightarrow> real \<Rightarrow> (theme_stats \<Rightarrow> insight) \<Rightarrow> insight list"
where
  \<comment> \<open>\<open>const s = getThemeStats(name); if (s && s.percentage > threshold) results.push(...)\<close>\<close>
  "theme_rule fb themeName threshold build =
     (case getThemeStats fb themeName of
        None \<Rightarrow> []
      | Some s \<Rightarrow> if percentage s > threshold then [build s] else [])"

definition analyzeThemes :: "theme_data option \<Rightarrow> feedback list option \<Rightarrow> insight list" where
  "analyzeThemes tData feedback =
     (case (tData, feedback) of
        (Some td, Some fb) \<Rightarrow>
          if fb = [] then []
          else theme_rule fb ''Durability'' 40 durability_insight
             @ theme_rule fb ''Comfort'' 30 comfort_insight
             @ theme_rule fb ''Appearance'' 60 appearance_insight
      | _ \<Rightarrow> [])"

definition avgRating :: "feedback list \<Rightarrow> real" where
  \<comment> \<open>\<open>feedback.reduce((sum, f) => sum + f.rating, 0) / feedback.length\<close>\<close>
  "avgRating fb = foldl (\<lambda>sum f. sum + rating f) 0 fb / real (length fb)"

definition analyzeRatings :: "feedback list option \<Rightarrow> insight list" where
  "analyzeRatings feedback =
     (case feedback of
        None \<Rightarrow> []
      | Some fb \<Rightarrow>
          if fb = [] then []
          else if avgRating fb < 25 / 10
          then [\<lparr> category = ''Rating Health'', itype = ''rating'',
                  message = ''Critical Rating Drop'',
                  detail = [Txt ''Average rating is dangerously low ('', Fixed 1 (avgRating fb),
                            Txt ''/5.0).''],
                  action = ''Emergency audit of product line required.'',
                  priority = Critical, iconfidence = 1, impact = ''high'', effort = ''high'' \<rparr>]
          else if avgRating fb < 35 / 10
          then [\<lparr> category = ''Rating Health'', itype = ''rating'',
                  message = ''Below Average Ratings'',
                  detail = [Txt ''Average rating ('', Fixed 1 (avgRating fb),
                            Txt '') indicates room for improvement.''],
                  action = ''Analyze 1-2 star reviews for recurring patterns.'',
                  priority = High, iconfidence = 1, impact = ''high'', effort = ''medium'' \<rparr>]
          else [])"

definition detectContradictions :: "feedback list option \<Rightarrow> insight list" where
  "detectContradictions feedback =
     (case feedback of
        None \<Rightarrow> []
      | Some fb \<Rightarrow>
          (let happyButSad =
                 filter (\<lambda>f. rating f \<ge> 4 \<and> label (sentiment f) = Negative
                             \<and> confidence (sentiment f) > 5 / 10) fb;
               sadButHappy =
                 filter (\<lambda>f. rating f \<le> 2 \<and> label (sentiment f) = Positive
                             \<and> confidence (sentiment f) > 5 / 10) fb
           in (if length happyButSad > 0
               then [\<lparr> category = ''Data Anomaly'', itype = ''contradiction'',
                       message =
                         ''Rating/Sentiment Contradiction (Positive Rating, Negative Text)'',
                       detail = [Num (real (length happyButSad)),
                                 Txt '' reviews have high ratings but negative text.''],
                       action =
                         ''Read these reviews manually - customers might be sarcastic or mixed.'',
                       priority = Medium, iconfidence = 7 / 10, impact = ''low'',
                       effort = ''low'' \<rparr>]
               else [])
            @ (if length sadButHappy > 0
               then [\<lparr> category = ''Data Anomaly'', itype = ''contradiction'',
                       message =
                         ''Rating/Sentiment Contradiction (Negative Rating, Positive Text)'',
                       detail = [Num (real (length sadButHappy)),
                                 Txt '' reviews have low ratings but positive text.''],
                       action =
                         ''Check for delivery/service issues unrelated to product quality.'',
                       priority = Medium, iconfidence = 7 / 10, impact = ''low'',
                       effort = ''low'' \<rparr>]
               else [])))"

record product_stats =
  count :: nat
  totalRating :: real
  negativeCount :: nat

definition new_stats :: product_stats where
  "new_stats = \<lparr> count = 0, totalRating = 0, negativeCount = 0 \<rparr>"

definition add_feedback :: "feedback \<Rightarrow> product_stats \<Rightarrow> product_stats" where
  "add_feedback f s =
     \<lparr> count = count s + 1, totalRating = totalRating s + rating f,
       negativeCount = (if label (sentiment f) = Negative then negativeCount s + 1
                        else negativeCount s) \<rparr>"

definition productStats :: "feedback list \<Rightarrow> (string \<times> product_stats) list" where
  "productStats fb = foldl (\<lambda>m f. upsert (product_id f) new_stats (add_feedback f) m) [] fb"

definition product_insights :: "string \<times> product_stats \<Rightarrow> insight list" where
  "product_insights e =
     (case e of (pid, stats) \<Rightarrow>
        if count stats < 2 then []
        else (let avg = totalRating stats / real (count stats);
                  negPercent = real (negativeCount stats) / real (count stats) * 100
              in (if avg < 3 \<and> negPercent > 50
                  then [\<lparr> category = ''Product Performance'', itype = ''product'',
                          message = ''Underperforming Product: '' @ pid,
                          detail = [Txt ''Avg Rating: '', Fixed 1 avg,
                                    Txt '', Negative Feedback: '', Fixed 0 negPercent,
                                    Txt ''%.''],
                          action = ''Consider halting sales or redesigning '' @ pid @ ''.'',
                          priority = Critical, iconfidence = 9 / 10, impact = ''high'',
                          effort = ''high'' \<rparr>]
                  else [])
               @ (if avg \<ge> 45 / 10 \<and> count stats \<ge> 3
                  then [\<lparr> category = ''Product Performance'', itype = ''star'',
                          message = ''Star Product: '' @ pid,
                          detail = [Txt ''Excellent performance with '', Fixed 1 avg,
                                    Txt '' average rating.''],
                          action = ''Promote this product in marketing campaigns.'',
                          priority = Low, iconfidence = 9 / 10, impact = ''high'',
                          effort = ''low'' \<rparr>]
                  else [])))"

definition analyzeByProduct :: "feedback list option \<Rightarrow> insight list" where
  "analyzeByProduct feedback =
     (case feedback of
        None \<Rightarrow> []
      | Some fb \<Rightarrow> concat (map product_insights (Object_entries (productStats fb))))"

record pattern =
  phrase :: string
  p_action :: string
  p_effort :: string
  p_impact :: string

definition patterns :: "pattern list" where
  "patterns =
     [\<lparr> phrase = ''too heavy'', p_action = ''Use lighter materials or hollow design'',
        p_effort = ''medium'', p_impact = ''high'' \<rparr>,
      \<lparr> phrase = ''packaging'', p_action = ''Improve packaging quality/presentation'',
        p_effort = ''low'', p_impact = ''medium'' \<rparr>,
      \<lparr> phrase = ''instructions'', p_action = ''Provide clearer care guide/manual'',
        p_effort = ''low'', p_impact = ''medium'' \<rparr>,
      \<lparr> phrase = ''arrived damaged'', p_action = ''Enhance shipping protection/padding'',
        p_effort = ''low'', p_impact = ''high'' \<rparr>,
      \<lparr> phrase = ''tarnish'', p_action = ''Add anti-tarnish coating or care kit'',
        p_effort = ''low'', p_impact = ''high'' \<rparr>,
      \<lparr> phrase = ''clasp'', p_action = ''Inspect clasp mechanism quality'',
        p_effort = ''medium'', p_impact = ''high'' \<rparr>]"

definition quick_win :: "feedback list \<Rightarrow> pattern \<Rightarrow> insight list" where
  "quick_win fb p =
     (let matches = filter (\<lambda>f. includes_str (toLowerCase (review_text f)) (phrase p)) fb
      in if length matches \<ge> 2
         then [\<lparr> category = ''Quick Win'', itype = ''quick-win'',
                 message = ''Recurring Issue: '' @ [CHR 0x22] @ phrase p @ [CHR 0x22],
                 detail = [Txt ''Mentioned in '', Num (real (length matches)), Txt '' reviews.''],
                 action = p_action p, priority = Medium, iconfidence = 85 / 100,
                 impact = p_impact p, effort = p_effort p \<rparr>]
         else [])"

definition identifyQuickWins :: "feedback list option \<Rightarrow> insight list" where
  "identifyQuickWins feedback =
     (case feedback of
        None \<Rightarrow> []
      | Some fb \<Rightarrow> concat (map (quick_win fb) patterns))"

definition priorityScore :: "priority \<Rightarrow> int" where
  "priorityScore p = (case p of Critical \<Rightarrow> 3 | High \<Rightarrow> 2 | Medium \<Rightarrow> 1 | Low \<Rightarrow> 0)"

datatype js_error = Error string | TypeError

record refreshed =
  r_sentiment :: "sentiment_data option"
  r_themes :: "theme_data option"
  r_feedback :: "feedback list option"

text \<open>
  \<open>handleGenerateInsights\<close> as a function of the component's properties. The optional
  callback \<open>onRefresh\<close> performs a request; its outcome is an input: \<open>None\<close> when the
  component has no callback, \<open>Some None\<close> when the callback returns \<open>null\<close>. The result
  \<open>Inl e\<close> is the error that the \<open>catch\<close> block stores instead of a list of insights.
  The call is the one made while no generation is in progress.
\<close>

definition handleGenerateInsights ::
  "sentiment_data option \<Rightarrow> theme_data option \<Rightarrow> feedback list option
     \<Rightarrow> refreshed option option \<Rightarrow> js_error + insight list"
where
  "handleGenerateInsights sentimentData themeData allFeedback onRefresh =
     (let given = (sentimentData, themeData, allFeedback);
          (sData, tData, fData) =
            (if sentimentData = None \<or> themeData = None \<or> allFeedback = None
                \<or> allFeedback = Some []
             then (case onRefresh of
                     Some (Some d) \<Rightarrow> (r_sentiment d, r_themes d, r_feedback d)
                   | _ \<Rightarrow> given)
             else given)
      in if sData = None \<or> tData = None \<or> fData = None
         then Inl (Error ''Insufficient data to generate insights.'')
         else Inr (sort_key (\<lambda>i. - priorityScore (priority i))
                     (analyzeOverallHealth sData @ analyzeThemes tData fData
                        @ analyzeRatings fData @ detectContradictions fData
                        @ analyzeByProduct fData @ identifyQuickWins fData)))"

section \<open>Insight rule engine: the utility \<open>generateInsights\<close>\<close>

record basic_insight =
  b_type :: string
  b_message :: "frag list"
  b_confidence :: real
  b_priority :: priority

datatype 'a arg = Undefined | Null | Given 'a

definition rule_strong_positive :: "sentiment_data \<Rightarrow> basic_insight list" where
  "rule_strong_positive sd =
     (if average_score sd > 2 / 10
      then [\<lparr> b_type = ''positive'',
              b_message = [Txt ''Strong positive sentiment: average score '',
                           Fixed 2 (average_score sd)],
              b_confidence = average_confidence sd, b_priority = High \<rparr>]
      else [])"

definition rule_negative_trend :: "sentiment_data \<Rightarrow> basic_insight list" where
  "rule_negative_trend sd =
     (if average_score sd < - (1 / 10)
      then [\<lparr> b_type = ''negative'',
              b_message = [Txt ''Negative sentiment trend: average score '',
                           Fixed 2 (average_score sd), Txt ''. Consider product review.''],
              b_confidence = average_confidence sd, b_priority = High \<rparr>]
      else [])"

definition rule_well_received :: "sentiment_data \<Rightarrow> basic_insight list" where
  "rule_well_received sd =
     (if total sd > 0 \<and> sd_positive sd / total sd > 6 / 10
      then [\<lparr> b_type = ''positive'',
              b_message = [Txt ''Product is well-received: '',
                           Fixed 1 (sd_positive sd / total sd * 100),
                           Txt ''% positive reviews''],
              b_confidence = average_confidence sd, b_priority = Medium \<rparr>]
      else [])"

definition rule_mixed :: "sentiment_data \<Rightarrow> basic_insight list" where
  "rule_mixed sd =
     (if total sd \<ge> 2 \<and> sd_positive sd > 0 \<and> sd_negative sd > 0
      then [\<lparr> b_type = ''neutral'',
              b_message = [Txt ''Mixed feedback detected: '', Num (sd_positive sd),
                           Txt '' positive and '', Num (sd_negative sd),
                           Txt '' negative reviews.''],
              b_confidence = average_confidence sd, b_priority = Medium \<rparr>]
      else [])"

definition rule_low_rating :: "feedback list \<Rightarrow> basic_insight list" where
  "rule_low_rating fb =
     (if length fb > 0 \<and> avgRating fb < 35 / 10
      then [\<lparr> b_type = ''negative'',
              b_message = [Txt ''Low average rating: '', Fixed 1 (avgRating fb),
                           Txt ''/5.0 - consider product review''],
              b_confidence = 8 / 10, b_priority = High \<rparr>]
      else [])"

definition theme_total :: "theme_data \<Rightarrow> string \<Rightarrow> real" where
  \<comment> \<open>the sum of the counts of the keys that contain \<open>key\<close>, case folded\<close>
  "theme_total td key =
     foldl (\<lambda>sum (theme, n). if includes_str (toLowerCase theme) key then sum + n else sum) 0 td"

definition mentions :: "string \<Rightarrow> feedback \<Rightarrow> bool" where
  \<comment> \<open>\<open>f.themes.some(t => t.toLowerCase().includes(key))\<close>\<close>
  "mentions key f = list_ex (\<lambda>t. includes_str (toLowerCase t) key) (themes f)"

definition negativeDurability :: "feedback list \<Rightarrow> nat" where
  "negativeDurability fb =
     length (filter (\<lambda>f. mentions ''durability'' f \<and> label (sentiment f) = Negative
                          \<and> confidence (sentiment f) \<ge> 6 / 10) fb)"

definition rule_durability :: "sentiment_data \<Rightarrow> theme_data \<Rightarrow> feedback list \<Rightarrow> basic_insight list"
where
  "rule_durability sd td fb =
     (if theme_total td ''durability'' > 0 \<and> length fb > 0
         \<and> real (negativeDurability fb) / theme_total td ''durability'' * 100 > 40
      then [\<lparr> b_type = ''durability'',
              b_message = [Txt ''Investigate durability: '', Num (real (negativeDurability fb)),
                           Txt '' negative reviews ('',
                           Fixed 1 (real (negativeDurability fb)
                                      / theme_total td ''durability'' * 100),
                           Txt ''%)''],
              b_confidence = average_confidence sd, b_priority = High \<rparr>]
      else [])"

definition comfortIssues :: "feedback list \<Rightarrow> nat" where
  "comfortIssues fb =
     length (filter (\<lambda>f. mentions ''comfort'' f
                          \<and> (label (sentiment f) = Negative
                              \<or> includes_str (toLowerCase (review_text f)) ''heavy''
                              \<or> includes_str (toLowerCase (review_text f)) ''uncomfortable''))
               fb)"

definition rule_comfort :: "sentiment_data \<Rightarrow> theme_data \<Rightarrow> feedback list \<Rightarrow> basic_insight list"
where
  "rule_comfort sd td fb =
     (if theme_total td ''comfort'' > 0 \<and> length fb > 0
         \<and> real (comfortIssues fb) / theme_total td ''comfort'' * 100 > 50
      then [\<lparr> b_type = ''comfort'',
              b_message = [Txt ''Consider lighter designs for better comfort: '',
                           Num (real (comfortIssues fb)), Txt '' comfort issues ('',
                           Fixed 1 (real (comfortIssues fb) / theme_total td ''comfort'' * 100),
                           Txt ''%)''],
              b_confidence = average_confidence sd, b_priority = Medium \<rparr>]
      else [])"

definition negativeAppearance :: "feedback list \<Rightarrow> nat" where
  "negativeAppearance fb =
     length (filter (\<lambda>f. mentions ''appearance'' f \<and> label (sentiment f) = Negative
                          \<and> confidence (sentiment f) \<ge> 6 / 10) fb)"

definition rule_appearance :: "sentiment_data \<Rightarrow> theme_data \<Rightarrow> feedback list \<Rightarrow> basic_insight list"
where
  "rule_appearance sd td fb =
     (if theme_total td ''appearance'' > 0 \<and> length fb > 0
         \<and> real (negativeAppearance fb) / theme_total td ''appearance'' * 100 > 60
      then [\<lparr> b_type = ''appearance'',
              b_message = [Txt ''Review product design and finish quality: '',
                           Num (real (negativeAppearance fb)),
                           Txt '' negative appearance reviews ('',
                           Fixed 1 (real (negativeAppearance fb)
                                      / theme_total td ''appearance'' * 100),
                           Txt ''%)''],
              b_confidence = average_confidence sd, b_priority = High \<rparr>]
      else [])"

definition all_rules :: "sentiment_data \<Rightarrow> theme_data \<Rightarrow> feedback list \<Rightarrow> basic_insight list" where
  "all_rules sd td fb =
     rule_strong_positive sd @ rule_negative_trend sd @ rule_well_received sd @ rule_mixed sd
       @ rule_low_rating fb @ rule_durability sd td fb @ rule_comfort sd td fb
       @ rule_appearance sd td fb"

text \<open>
  The parameter \<open>allFeedback\<close> has the default \<open>[]\<close>, which replaces \<open>undefined\<close> only:
  with \<open>null\<close> the read of \<open>allFeedback.length\<close> in the fourth rule raises a \<open>TypeError\<close>.
\<close>

definition generateInsights ::
  "sentiment_data option \<Rightarrow> theme_data option \<Rightarrow> feedback list arg
     \<Rightarrow> js_error + basic_insight list"
where
  "generateInsights sentimentData themeData allFeedback =
     (case (sentimentData, themeData) of
        (Some sd, Some td) \<Rightarrow>
          (case allFeedback of
             Undefined \<Rightarrow> Inr (all_rules sd td [])
           | Null \<Rightarrow> Inl TypeError
           | Given fb \<Rightarrow> Inr (all_rules sd td fb))
      | _ \<Rightarrow> Inr [])"

section \<open>Vocabulary of the statements\<close>

definition tagged :: "string \<Rightarrow> feedback list \<Rightarrow> feedback list" where
  \<comment> \<open>the records that carry the theme label \<open>name\<close>\<close>
  "tagged name fb = filter (\<lambda>f. name \<in> set (themes f)) fb"

definition negatives :: "feedback list \<Rightarrow> feedback list" where
  "negatives fb = filter (\<lambda>f. label (sentiment f) = Negative) fb"

definition confident_negatives :: "feedback list \<Rightarrow> feedback list" where
  "confident_negatives fb =
     filter (\<lambda>f. label (sentiment f) = Negative \<and> confidence (sentiment f) \<ge> 6 / 10) fb"

definition claimed_negative_share :: "string \<Rightarrow> feedback list \<Rightarrow> real" where
  \<comment> \<open>the negative share in the words of the specification: the tagged records that are
      negative with confidence at least 0.6, over the tagged records\<close>
  "claimed_negative_share name fb =
     real (length (confident_negatives (tagged name fb))) / real (length (tagged name fb))"

definition emits :: "string \<Rightarrow> priority \<Rightarrow> insight list \<Rightarrow> bool" where
  "emits ty p xs = list_ex (\<lambda>i. itype i = ty \<and> priority i = p) xs"

definition emits_basic :: "string \<Rightarrow> priority \<Rightarrow> basic_insight list \<Rightarrow> bool" where
  "emits_basic ty p xs = list_ex (\<lambda>i. b_type i = ty \<and> b_priority i = p) xs"

definition insufficient :: js_error where
  "insufficient = Error ''Insufficient data to generate insights.''"

section \<open>Sample inputs\<close>

definition no_opts :: opts where
  "no_opts =
     \<lparr> halfLifeDays = None, minConfidence = None, neutralFactor = None, phraseLimit = None \<rparr>"

definition parse_fixed :: "string \<Rightarrow> real option" where
  \<comment> \<open>a date parser that knows two dates, thirty days apart, in milliseconds\<close>
  "parse_fixed s =
     (if s = ''2026-01-31T00:00:00Z'' then Some 2592000000
      else if s = ''2026-01-01T00:00:00Z'' then Some 0
      else None)"

definition mk :: "real option \<Rightarrow> real \<Rightarrow> string list \<Rightarrow> string \<Rightarrow> string \<Rightarrow> feedback_obj" where
  "mk rt c ts txt created =
     \<lparr> o_rating = rt, o_sentiment = Some \<lparr> o_confidence = Some c \<rparr>,
       o_themes = Some (map Some ts), o_review_text = Some txt, o_created_at = Some created \<rparr>"

definition dup_a :: feedback_obj where
  "dup_a = mk (Some 5) (9 / 10) [''Appearance''] ''Lovely ring!'' ''2026-01-31T00:00:00Z''"

definition dup_b :: feedback_obj where
  "dup_b = mk (Some 4) (8 / 10) [''Appearance''] ''lovely   RING'' ''2026-01-31T00:00:00Z''"

definition dup_c :: feedback_obj where
  "dup_c = mk (Some 5) (7 / 10) [''Appearance''] ''Lovely, ring.'' ''2026-01-31T00:00:00Z''"

definition aged_30 :: feedback_obj where
  "aged_30 =
     mk (Some 2) (9 / 10) [''Durability'', ''Comfort''] ''The clasp broke''
       ''2026-01-01T00:00:00Z''"

definition undated :: feedback_obj where
  "undated =
     \<lparr> o_rating = None, o_sentiment = None, o_themes = None, o_review_text = None,
       o_created_at = None \<rparr>"

definition fresh :: "string \<Rightarrow> feedback_obj" where
  "fresh txt = mk (Some 3) 1 [''Other''] txt ''2026-01-31T00:00:00Z''"

definition five_fresh :: "feedback_obj list" where
  "five_fresh =
     [fresh ''ring'', fresh ''necklace'', fresh ''clasp'', fresh ''earrings'', fresh ''bracelet'']"

definition review :: "string \<Rightarrow> real \<Rightarrow> string \<Rightarrow> label \<Rightarrow> real \<Rightarrow> string list \<Rightarrow> feedback" where
  "review pid r txt l c ts =
     \<lparr> product_id = pid, rating = r, review_text = txt, created_at = ''2026-01-31T00:00:00Z'',
       sentiment =
         \<lparr> label = l,
           score = (case l of Positive \<Rightarrow> 3 / 10 | Negative \<Rightarrow> - (3 / 10) | Neutral \<Rightarrow> 0),
           confidence = c, matched_words = [] \<rparr>,
       themes = ts \<rparr>"

definition happy :: feedback where
  "happy = review ''ring-1'' 5 ''Love it, beautiful'' Positive (9 / 10) [''Appearance'']"

definition broken :: feedback where
  "broken =
     review ''chain-2'' 1 ''It broke and started to tarnish'' Negative (9 / 10) [''Durability'']"

definition unsure :: feedback where
  "unsure = review ''chain-2'' 2 ''Not sure it will last'' Negative (3 / 10) [''Durability'']"

definition scenario :: "feedback list" where
  \<comment> \<open>six records rated 5 and four rated 1: the average rating is 3.4\<close>
  "scenario = replicate 6 happy @ replicate 4 broken"

definition scenario_themes :: theme_data where
  "scenario_themes = [(''Appearance'', 6), (''Durability'', 4)]"

definition scenario_sentiment :: sentiment_data where
  "scenario_sentiment =
     \<lparr> total = 10, sd_positive = 6, sd_negative = 4, sd_neutral = 0, average_score = 6 / 100,
       average_confidence = 9 / 10 \<rparr>"

definition snug :: feedback where
  "snug = review ''ring-1'' 4 ''Fits well'' Positive (8 / 10) [''Comfort'']"

definition pinches :: feedback where
  "pinches = review ''ring-1'' 2 ''It pinches my finger'' Negative (8 / 10) [''Comfort'']"

definition comfort_sample :: "feedback list" where
  \<comment> \<open>five Comfort records, two of them negative: a share of 40 percent\<close>
  "comfort_sample = [snug, pinches, snug, pinches, snug]"

definition comfort_themes :: theme_data where
  "comfort_themes = [(''Comfort'', 5)]"

section \<open>Properties of the aggregation engine\<close>

subsection \<open>The loop and its accumulators\<close>

lemmas string_eval = fingerprint_def sanitizeText_def trim_def strip_punct_def toLowerCase_def
  toLowerCase_char_def is_word_char_def is_space_char_def

lemma process_all_snoc:
  "process_all now parse cfg (xs @ [x]) =
     process_record now parse cfg (process_all now parse cfg xs) x"
  by (simp add: process_all_def)

lemma state_at_Suc:
  "i < length rs \<Longrightarrow>
   state_at now parse cfg rs (Suc i) =
     process_record now parse cfg (state_at now parse cfg rs i) (rs ! i)"
  by (simp add: state_at_def take_Suc_conv_app_nth process_all_snoc)

lemma dedupeMap_process_record:
  "prev_count (dedupeMap (process_record now parse cfg st r)) fp =
     prev_count (dedupeMap st) fp + (if fp_of r = fp then 1 else 0)"
  by (simp add: process_record_def Let_def prev_count_def fp_of_def)

lemma dedupeMap_counts:
  "prev_count (dedupeMap (process_all now parse cfg rs)) fp =
     length (filter (\<lambda>r. fp_of r = fp) rs)"
proof (induction rs rule: rev_induct)
  case Nil
  show ?case by (simp add: process_all_def init_state_def prev_count_def)
next
  case (snoc x xs)
  then show ?case by (simp add: process_all_snoc dedupeMap_process_record)
qed

lemma dedupe_at_eq:
  "dedupe_at now parse cfg rs i = 1 / sqrt (real (earlier_same rs i) + 1)"
  by (simp add: dedupe_at_def dedupeFactor_def state_at_def dedupeMap_counts earlier_same_def
      fp_of_def [symmetric] add.commute)

lemma weight_at_eq:
  "weight_at now parse cfg rs i =
     max (c_raw (rs ! i)) (c_minConfidence cfg)
       * timeWeight cfg (daysSince now parse (o_created_at (rs ! i)))
       * (1 / sqrt (real (earlier_same rs i) + 1))"
  using dedupe_at_eq [of now parse cfg rs i]
  by (simp add: weight_at_def reviewWeight_def dedupe_at_def)

lemma weight_at_snoc_old:
  "i < length xs \<Longrightarrow> weight_at now parse cfg (xs @ [x]) i = weight_at now parse cfg xs i"
  by (simp add: weight_at_def state_at_def nth_append)

lemma weight_at_snoc_new:
  "weight_at now parse cfg (xs @ [x]) (length xs) =
     reviewWeight now parse cfg (dedupeMap (process_all now parse cfg xs)) x"
  by (simp add: weight_at_def state_at_def)

lemma totalEff_sum:
  "totalEff (process_all now parse cfg rs) = (\<Sum>i<length rs. weight_at now parse cfg rs i)"
proof (induction rs rule: rev_induct)
  case Nil
  show ?case by (simp add: process_all_def init_state_def)
next
  case (snoc x xs)
  have "totalEff (process_all now parse cfg (xs @ [x])) =
        totalEff (process_all now parse cfg xs) + weight_at now parse cfg (xs @ [x]) (length xs)"
    by (simp add: process_all_snoc process_record_def Let_def weight_at_snoc_new)
  then show ?case using snoc by (simp add: weight_at_snoc_old)
qed

lemma rawPos_sum:
  "rawPos (process_all now parse cfg rs) =
     (\<Sum>i<length rs. max 0 ((rating_or_3 (rs ! i) - 3) / 2) * weight_at now parse cfg rs i)"
proof (induction rs rule: rev_induct)
  case Nil
  show ?case by (simp add: process_all_def init_state_def)
next
  case (snoc x xs)
  have "rawPos (process_all now parse cfg (xs @ [x])) =
        rawPos (process_all now parse cfg xs)
          + max 0 ((rating_or_3 x - 3) / 2) * weight_at now parse cfg (xs @ [x]) (length xs)"
    by (simp add: process_all_snoc process_record_def Let_def weight_at_snoc_new posContrib_def
        s_final_def)
  then show ?case using snoc by (simp add: weight_at_snoc_old nth_append)
qed

lemma rawNeg_sum:
  "rawNeg (process_all now parse cfg rs) =
     (\<Sum>i<length rs. max 0 (- ((rating_or_3 (rs ! i) - 3) / 2)) * weight_at now parse cfg rs i)"
proof (induction rs rule: rev_induct)
  case Nil
  show ?case by (simp add: process_all_def init_state_def)
next
  case (snoc x xs)
  have "rawNeg (process_all now parse cfg (xs @ [x])) =
        rawNeg (process_all now parse cfg xs)
          + max 0 (- ((rating_or_3 x - 3) / 2)) * weight_at now parse cfg (xs @ [x]) (length xs)"
    by (simp add: process_all_snoc process_record_def Let_def weight_at_snoc_new negContrib_def
        s_final_def)
  then show ?case using snoc by (simp add: weight_at_snoc_old nth_append)
qed

lemma rawNeu_sum:
  "rawNeu (process_all now parse cfg rs) =
     (\<Sum>i<length rs. (1 - \<bar>(rating_or_3 (rs ! i) - 3) / 2\<bar>) * weight_at now parse cfg rs i
        * c_neutralFactor cfg)"
proof (induction rs rule: rev_induct)
  case Nil
  show ?case by (simp add: process_all_def init_state_def)
next
  case (snoc x xs)
  have "rawNeu (process_all now parse cfg (xs @ [x])) =
        rawNeu (process_all now parse cfg xs)
          + (1 - \<bar>(rating_or_3 x - 3) / 2\<bar>) * weight_at now parse cfg (xs @ [x]) (length xs)
              * c_neutralFactor cfg"
    by (simp add: process_all_snoc process_record_def Let_def weight_at_snoc_new neuContrib_def
        s_final_def)
  then show ?case using snoc by (simp add: weight_at_snoc_old nth_append)
qed

lemma returned_fields:
  "positive (out_sentiment (computeAdjustedAggregates now parse rs os)) =
     toFixed 4 (positivePct (process_all now parse (destructure os) rs))"
  "negative (out_sentiment (computeAdjustedAggregates now parse rs os)) =
     toFixed 4 (negativePct (process_all now parse (destructure os) rs))"
  "neutral (out_sentiment (computeAdjustedAggregates now parse rs os)) =
     toFixed 4 (neutralPct (process_all now parse (destructure os) rs))"
  "insufficientData (computeAdjustedAggregates now parse rs os) =
     (totalEff (process_all now parse (destructure os) rs) < 5)"
  by (simp_all add: computeAdjustedAggregates_def Let_def)

lemma timeWeight_half:
  "c_halfLifeDays cfg \<noteq> 0 \<Longrightarrow> timeWeight cfg (c_halfLifeDays cfg) = 1 / 2"
  by (simp add: timeWeight_def exp_minus)

subsection \<open>Facts about the sample inputs\<close>

lemma default_config:
  "c_halfLifeDays (destructure no_opts) = 30"
  "c_minConfidence (destructure no_opts) = 2 / 10"
  "c_neutralFactor (destructure no_opts) = 1 / 2"
  "c_phraseLimit (destructure no_opts) = 200"
  by (simp_all add: destructure_def no_opts_def)

lemma fp_dups:
  "fp_of dup_a = ''lovely ring''" "fp_of dup_b = ''lovely ring''" "fp_of dup_c = ''lovely ring''"
  by (simp_all add: fp_of_def dup_a_def dup_b_def dup_c_def mk_def text_or_empty_def string_eval)

lemma days_aged_30: "daysSince 2592000000 parse_fixed (o_created_at aged_30) = 30"
  by (simp add: daysSince_def aged_30_def mk_def parse_fixed_def)

lemma c_raw_aged_30: "c_raw aged_30 = 9 / 10"
  by (simp add: c_raw_def aged_30_def mk_def)

lemma weight_aged_30:
  "weight_at 2592000000 parse_fixed (destructure no_opts) [aged_30, undated] 0 = 9 / 20"
  by (simp add: weight_at_eq earlier_same_def days_aged_30 c_raw_aged_30 timeWeight_def exp_minus
      default_config)

lemma fresh_fields:
  "c_raw (fresh txt) = 1"
  "daysSince 2592000000 parse_fixed (o_created_at (fresh txt)) = 0"
  "text_or_empty (fresh txt) = txt"
  by (simp_all add: fresh_def mk_def c_raw_def daysSince_def parse_fixed_def text_or_empty_def)

lemma fp_fresh:
  "fp_of (fresh ''ring'') = ''ring''"
  "fp_of (fresh ''necklace'') = ''necklace''"
  "fp_of (fresh ''clasp'') = ''clasp''"
  "fp_of (fresh ''earrings'') = ''earrings''"
  "fp_of (fresh ''bracelet'') = ''bracelet''"
  by (simp_all add: fp_of_def fresh_fields string_eval)

lemma weights_five_fresh:
  assumes "i < 5"
  shows "weight_at 2592000000 parse_fixed (destructure no_opts) five_fresh i = 1"
proof -
  from assms have "i = 0 \<or> i = 1 \<or> i = 2 \<or> i = 3 \<or> i = 4" by arith
  then show ?thesis
    by (auto simp: weight_at_eq five_fresh_def fresh_fields fp_fresh earlier_same_def
        timeWeight_def default_config eval_nat_numeral)
qed

lemma weight_dup_a:
  "weight_at 2592000000 parse_fixed (destructure no_opts) [dup_a] 0 = 9 / 10"
  by (simp add: weight_at_eq earlier_same_def timeWeight_def daysSince_def dup_a_def mk_def
      parse_fixed_def c_raw_def default_config)

lemma state_dup_a:
  "rawPos (process_all 2592000000 parse_fixed (destructure no_opts) [dup_a]) = 9 / 10"
  "rawNeg (process_all 2592000000 parse_fixed (destructure no_opts) [dup_a]) = 0"
  "rawNeu (process_all 2592000000 parse_fixed (destructure no_opts) [dup_a]) = 0"
  using weight_dup_a
  by (simp_all add: rawPos_sum rawNeg_sum rawNeu_sum rating_or_3_def dup_a_def mk_def)

subsection \<open>The theme accumulators\<close>

lemma map_of_upsert:
  "map_of (upsert k init f kvs) k' =
     (if k' = k then Some (f (case map_of kvs k of Some a \<Rightarrow> a | None \<Rightarrow> init))
      else map_of kvs k')"
  by (induction kvs) auto

lemma weightedCount_credit: "weightedCount (credit cfg r w a) = weightedCount a + w"
  by (simp add: credit_def Let_def)

lemma weightedCount_of_credit_in:
  "weightedCount_of (credit_in name (credit cfg r w) tm) k =
     weightedCount_of tm k + (if k = name then w else 0)"
  by (simp add: weightedCount_of_def credit_in_def map_of_upsert weightedCount_credit new_acc_def
      split: option.splits)

lemma weightedCount_of_foldl:
  "weightedCount_of (foldl (\<lambda>m t. credit_in (theme_name t) (credit cfg r w) m) tm ts) k =
     weightedCount_of tm k + real (count_list (map theme_name ts) k) * w"
  by (induction ts arbitrary: tm) (simp_all add: weightedCount_of_credit_in algebra_simps)

lemma weightedCount_of_credit_themes:
  "weightedCount_of (credit_themes cfg r rw tm) k =
     weightedCount_of tm k
       + real (count_list (map theme_name (theme_list r)) k) * (rw / real (length (theme_list r)))"
  by (simp add: credit_themes_def weightedCount_of_foldl frac_def)

lemma themeMap_Suc:
  "i < length rs \<Longrightarrow>
   themeMap (state_at now parse cfg rs (Suc i)) =
     credit_themes cfg (rs ! i) (weight_at now parse cfg rs i)
       (themeMap (state_at now parse cfg rs i))"
  by (simp add: state_at_Suc process_record_def Let_def weight_at_def)

lemma themeMap_start:
  "weightedCount_of (themeMap (state_at now parse cfg rs 0)) k = 0"
  by (simp add: state_at_def process_all_def init_state_def weightedCount_of_def)

lemma sum_count_names:
  "(\<Sum>k\<in>set xs. real (count_list xs k)) = real (length xs)"
proof -
  have "(\<Sum>k\<in>set xs. count_list xs k) = length xs"
    by (rule sum_count_set) simp_all
  then have "real (\<Sum>k\<in>set xs. count_list xs k) = real (length xs)" by simp
  then show ?thesis by simp
qed

lemma count_list_distinct: "distinct xs \<Longrightarrow> x \<in> set xs \<Longrightarrow> count_list xs x = 1"
  by (induction xs) auto

lemma theme_names_aged_30:
  "theme_name (Some ''Durability'') = ''Durability''" "theme_name (Some ''Comfort'') = ''Comfort''"
  by (simp_all add: theme_name_def trim_def is_space_char_def)

lemma effCount_credit: "effCount (credit cfg r w a) = effCount a + w"
  by (simp add: credit_def Let_def)

lemma effCount_of_credit_in:
  "effCount_of (credit_in name (credit cfg r w) tm) k =
     effCount_of tm k + (if k = name then w else 0)"
  by (simp add: effCount_of_def credit_in_def map_of_upsert effCount_credit new_acc_def
      split: option.splits)

lemma effCount_of_foldl:
  "effCount_of (foldl (\<lambda>m t. credit_in (theme_name t) (credit cfg r w) m) tm ts) k =
     effCount_of tm k + real (count_list (map theme_name ts) k) * w"
  by (induction ts arbitrary: tm) (simp_all add: effCount_of_credit_in algebra_simps)

lemma effCount_of_credit_themes:
  "effCount_of (credit_themes cfg r rw tm) k =
     effCount_of tm k
       + real (count_list (map theme_name (theme_list r)) k) * (rw / real (length (theme_list r)))"
  by (simp add: credit_themes_def effCount_of_foldl frac_def)

lemma effCount_start:
  "effCount_of (themeMap (state_at now parse cfg rs 0)) k = 0"
  by (simp add: state_at_def process_all_def init_state_def effCount_of_def)

lemma keys_upsert: "set (map fst (upsert k init f kvs)) = insert k (set (map fst kvs))"
proof (induction kvs)
  case Nil
  show ?case by simp
next
  case (Cons kv kvs)
  obtain k' v where kv: "kv = (k', v)" by (cases kv)
  show ?case
  proof (cases "k' = k")
    case True
    then show ?thesis by (simp add: kv)
  next
    case False
    then show ?thesis using Cons by (simp add: kv insert_commute)
  qed
qed

lemma distinct_upsert:
  "distinct (map fst kvs) \<Longrightarrow> distinct (map fst (upsert k init f kvs))"
proof (induction kvs)
  case Nil
  show ?case by simp
next
  case (Cons kv kvs)
  obtain k' v where kv: "kv = (k', v)" by (cases kv)
  from Cons have "distinct (map fst (upsert k init f kvs))" "k' \<notin> set (map fst kvs)"
    "distinct (map fst kvs)"
    by (simp_all add: kv)
  then show ?case
    using keys_upsert [of k init f kvs] by (cases "k' = k") (simp_all add: kv)
qed

lemma distinct_credit_foldl:
  "distinct (map fst tm) \<Longrightarrow>
   distinct (map fst (foldl (\<lambda>m t. credit_in (theme_name t) g m) tm ts))"
  by (induction ts arbitrary: tm) (simp_all add: credit_in_def distinct_upsert)

lemma distinct_themeMap:
  "distinct (map fst (themeMap (process_all now parse cfg rs)))"
proof (induction rs rule: rev_induct)
  case Nil
  show ?case by (simp add: process_all_def init_state_def)
next
  case (snoc x xs)
  then show ?case
    by (simp add: process_all_snoc process_record_def Let_def credit_themes_def
        distinct_credit_foldl)
qed

lemma set_Object_entries: "set (Object_entries kvs) = set kvs"
  by (auto simp: Object_entries_def)

lemma distinct_Object_entries:
  assumes "distinct (map fst kvs)"
  shows "distinct (map fst (Object_entries kvs))"
proof -
  from assms have d: "distinct kvs" and i: "inj_on fst (set kvs)"
    by (simp_all add: distinct_map)
  let ?A = "filter (\<lambda>(k, v). array_index k \<noteq> None) kvs"
  let ?B = "filter (\<lambda>(k, v). array_index k = None) kvs"
  let ?g = "\<lambda>(k, v). case array_index k of Some n \<Rightarrow> n | None \<Rightarrow> (0::nat)"
  have a: "distinct (map fst (sort_key ?g ?A))"
    using d i by (simp add: distinct_map) (rule inj_on_subset, auto)
  have b: "distinct (map fst ?B)"
    using d i by (simp add: distinct_map) (rule inj_on_subset, auto)
  have c: "fst ` set (sort_key ?g ?A) \<inter> fst ` set ?B = {}"
    by (simp add: disjoint_iff) fastforce
  show ?thesis
    unfolding Object_entries_def using a b c by simp
qed

lemma map_of_Object_entries:
  "distinct (map fst kvs) \<Longrightarrow> map_of (Object_entries kvs) = map_of kvs"
  using map_of_inject_set [of "Object_entries kvs" kvs]
  by (simp add: distinct_Object_entries set_Object_entries)

lemma effCount_of_Suc:
  "i < length rs \<Longrightarrow>
   effCount_of (themeMap (state_at now parse cfg rs (Suc i))) k =
     effCount_of (themeMap (state_at now parse cfg rs i)) k
       + real (count_list (map theme_name (theme_list (rs ! i))) k)
           * (weight_at now parse cfg rs i / real (length (theme_list (rs ! i))))"
  by (simp add: themeMap_Suc effCount_of_credit_themes)

lemma effCount_of_sum:
  "effCount_of (themeMap (process_all now parse cfg rs)) k =
     (\<Sum>j<length rs. real (count_list (map theme_name (theme_list (rs ! j))) k)
        * (weight_at now parse cfg rs j / real (length (theme_list (rs ! j)))))"
proof (induction rs rule: rev_induct)
  case Nil
  show ?case by (simp add: process_all_def init_state_def effCount_of_def)
next
  case (snoc x xs)
  have "effCount_of (themeMap (process_all now parse cfg (xs @ [x]))) k =
        effCount_of (themeMap (process_all now parse cfg xs)) k
          + real (count_list (map theme_name (theme_list x)) k)
              * (weight_at now parse cfg (xs @ [x]) (length xs) / real (length (theme_list x)))"
    by (simp add: process_all_snoc process_record_def Let_def weight_at_snoc_new
        effCount_of_credit_themes)
  then show ?case using snoc by (simp add: weight_at_snoc_old nth_append)
qed

lemma reported_theme_counts:
  "map_of (positiveThemes (out_themes (computeAdjustedAggregates now parse rs os))) k =
     map_option (\<lambda>a. toFixed 4 (effCount a))
       (map_of (themeMap (process_all now parse (destructure os) rs)) k)"
  "map_option stat_effCount
     (map_of (themeStats (out_themes (computeAdjustedAggregates now parse rs os))) k) =
     map_option (\<lambda>a. toFixed 3 (effCount a))
       (map_of (themeMap (process_all now parse (destructure os) rs)) k)"
  by (simp_all add: computeAdjustedAggregates_def Let_def map_of_map map_of_Object_entries
      distinct_themeMap option.map_comp comp_def)

lemma effCount_of_Some:
  "effCount_of tm k = x \<Longrightarrow> x \<noteq> 0 \<Longrightarrow> \<exists>a. map_of tm k = Some a \<and> effCount a = x"
  by (cases "map_of tm k") (simp_all add: effCount_of_def)

lemma theme_list_samples:
  "theme_list aged_30 = [Some ''Durability'', Some ''Comfort'']"
  "theme_list undated = [Some ''Other'']"
  by (simp_all add: theme_list_def aged_30_def undated_def mk_def)

lemma theme_name_other: "theme_name (Some ''Other'') = ''Other''"
  by (simp add: theme_name_def trim_def is_space_char_def)

lemma toFixed_9_40: "toFixed 4 (9 / 40) = 9 / 40"
  by (simp add: toFixed_def)

subsection \<open>The claims\<close>

text \<open>
  Claim C2. In one batch, the record at position \<open>i\<close> gets the dedupe factor
  \<open>1 / sqrt (k + 1)\<close>, where \<open>k\<close> is the number of earlier records of the batch with the
  same fingerprint. In particular three records with one fingerprint get the factors
  \<open>1\<close>, \<open>1 / sqrt 2\<close> and \<open>1 / sqrt 3\<close> in input order.
\<close>

theorem dedupe_factor_kth:
  "(i < length rs \<longrightarrow>
      dedupe_at now parse cfg rs i = 1 / sqrt (real (earlier_same rs i) + 1)) \<and>
   (fp_of b = fp_of a \<and> fp_of c = fp_of a \<longrightarrow>
      dedupe_at now parse cfg [a, b, c] 0 = 1 \<and>
      dedupe_at now parse cfg [a, b, c] 1 = 1 / sqrt 2 \<and>
      dedupe_at now parse cfg [a, b, c] 2 = 1 / sqrt 3)"
proof -
  have k: "fp_of b = fp_of a \<Longrightarrow> fp_of c = fp_of a \<Longrightarrow>
        earlier_same [a, b, c] 0 = 0 \<and> earlier_same [a, b, c] 1 = 1 \<and> earlier_same [a, b, c] 2 = 2"
    by (simp add: earlier_same_def numeral_2_eq_2)
  show ?thesis
    using k by (auto simp: dedupe_at_eq)
qed

theorem dedupe_factor_kth_witness:
  "2 < length [dup_a, dup_b, dup_c] \<and> fp_of dup_b = fp_of dup_a \<and> fp_of dup_c = fp_of dup_a \<and>
   earlier_same [dup_a, dup_b, dup_c] 2 = 2 \<and>
   dedupe_at 2592000000 parse_fixed (destructure no_opts) [dup_a, dup_b, dup_c] 0 = 1 \<and>
   dedupe_at 2592000000 parse_fixed (destructure no_opts) [dup_a, dup_b, dup_c] 1 = 1 / sqrt 2 \<and>
   dedupe_at 2592000000 parse_fixed (destructure no_opts) [dup_a, dup_b, dup_c] 2 = 1 / sqrt 3"
  using dedupe_factor_kth [of 2 "[dup_a, dup_b, dup_c]" 2592000000 parse_fixed
      "destructure no_opts" dup_b dup_a dup_c]
  by (simp add: fp_dups earlier_same_def)

text \<open>
  Claim C3. The weight of the record at position \<open>i\<close> is the confidence, raised to the
  floor \<open>minConfidence\<close>, times \<open>exp (- ln 2 * age_days / halfLifeDays)\<close> times the dedupe
  factor, and it is what the iteration adds to the effective total. The confidence is
  the one of the record's sentiment. The age is 9999 days when \<open>created_at\<close> is missing,
  empty or not parseable, and the time since \<open>created_at\<close> in days otherwise. A record
  aged exactly \<open>halfLifeDays\<close> (not zero) has time weight one half.
\<close>

theorem review_weight_formula:
  "(i < length rs \<longrightarrow>
      weight_at now parse cfg rs i =
        max (c_raw (rs ! i)) (c_minConfidence cfg)
          * exp (- ln 2 * daysSince now parse (o_created_at (rs ! i)) / c_halfLifeDays cfg)
          * dedupe_at now parse cfg rs i \<and>
      totalEff (state_at now parse cfg rs (Suc i)) =
        totalEff (state_at now parse cfg rs i) + weight_at now parse cfg rs i) \<and>
   (o_sentiment r = Some s \<and> o_confidence s = Some c \<longrightarrow> c_raw r = c) \<and>
   daysSince now parse None = 9999 \<and>
   daysSince now parse (Some []) = 9999 \<and>
   (parse d = None \<longrightarrow> daysSince now parse (Some d) = 9999) \<and>
   (d \<noteq> [] \<and> parse d = Some t \<longrightarrow> daysSince now parse (Some d) = (now - t) / 86400000) \<and>
   (c_halfLifeDays cfg \<noteq> 0 \<and> daysSince now parse (o_created_at r) = c_halfLifeDays cfg \<longrightarrow>
      timeWeight cfg (daysSince now parse (o_created_at r)) = 1 / 2 \<and>
      \<bar>timeWeight cfg (daysSince now parse (o_created_at r)) - 1 / 2\<bar> \<le> 1 / 10 ^ 6)"
proof -
  have w: "weight_at now parse cfg rs i =
        max (c_raw (rs ! i)) (c_minConfidence cfg)
          * exp (- ln 2 * daysSince now parse (o_created_at (rs ! i)) / c_halfLifeDays cfg)
          * dedupe_at now parse cfg rs i"
    by (simp add: weight_at_def reviewWeight_def timeWeight_def dedupe_at_def)
  have t: "i < length rs \<Longrightarrow> totalEff (state_at now parse cfg rs (Suc i)) =
        totalEff (state_at now parse cfg rs i) + weight_at now parse cfg rs i"
    by (simp add: state_at_Suc process_record_def Let_def weight_at_def)
  have c: "o_sentiment r = Some s \<and> o_confidence s = Some c \<longrightarrow> c_raw r = c"
    by (simp add: c_raw_def)
  have d: "daysSince now parse None = 9999" "daysSince now parse (Some []) = 9999"
    "parse d = None \<longrightarrow> daysSince now parse (Some d) = 9999"
    "d \<noteq> [] \<and> parse d = Some t \<longrightarrow> daysSince now parse (Some d) = (now - t) / 86400000"
    by (simp_all add: daysSince_def)
  have h: "c_halfLifeDays cfg \<noteq> 0 \<and> daysSince now parse (o_created_at r) = c_halfLifeDays cfg \<longrightarrow>
      timeWeight cfg (daysSince now parse (o_created_at r)) = 1 / 2 \<and>
      \<bar>timeWeight cfg (daysSince now parse (o_created_at r)) - 1 / 2\<bar> \<le> 1 / 10 ^ 6"
    by (simp add: timeWeight_half)
  show ?thesis using w t c d h by blast
qed

theorem review_weight_formula_witness:
  "0 < length [aged_30, undated] \<and>
   c_halfLifeDays (destructure no_opts) \<noteq> 0 \<and>
   daysSince 2592000000 parse_fixed (o_created_at aged_30) = c_halfLifeDays (destructure no_opts) \<and>
   timeWeight (destructure no_opts) (daysSince 2592000000 parse_fixed (o_created_at aged_30))
     = 1 / 2 \<and>
   weight_at 2592000000 parse_fixed (destructure no_opts) [aged_30, undated] 0 = 9 / 20 \<and>
   parse_fixed ''yesterday'' = None \<and>
   daysSince 2592000000 parse_fixed (Some ''yesterday'') = 9999 \<and>
   ''2026-01-01T00:00:00Z'' \<noteq> [] \<and> parse_fixed ''2026-01-01T00:00:00Z'' = Some 0 \<and>
   daysSince 2592000000 parse_fixed (Some ''2026-01-01T00:00:00Z'') = 30 \<and>
   o_sentiment aged_30 = Some \<lparr> o_confidence = Some (9 / 10) \<rparr> \<and>
   c_raw aged_30 = 9 / 10"
proof -
  have e: "dedupe_at 2592000000 parse_fixed (destructure no_opts) [aged_30, undated] 0 = 1"
    by (simp add: dedupe_at_eq earlier_same_def)
  have s: "o_sentiment aged_30 = Some \<lparr> o_confidence = Some (9 / 10) \<rparr>"
    by (simp add: aged_30_def mk_def)
  have p: "parse_fixed ''yesterday'' = None" "parse_fixed ''2026-01-01T00:00:00Z'' = Some 0"
    by (simp_all add: parse_fixed_def)
  show ?thesis
    using
      review_weight_formula [where i = 0 and rs = "[aged_30, undated]" and now = 2592000000
        and parse = parse_fixed and cfg = "destructure no_opts" and r = aged_30
        and s = "\<lparr> o_confidence = Some (9 / 10) \<rparr>" and c = "9 / 10" and d = "''yesterday''"
        and t = 0]
      review_weight_formula [where i = 0 and rs = "[aged_30, undated]" and now = 2592000000
        and parse = parse_fixed and cfg = "destructure no_opts" and r = aged_30
        and s = "\<lparr> o_confidence = Some (9 / 10) \<rparr>" and c = "9 / 10"
        and d = "''2026-01-01T00:00:00Z''" and t = 0]
    by (simp add: e s days_aged_30 default_config(1,2) p c_raw_aged_30 exp_minus)
qed

text \<open>
  Claim C4, as amended. The polarity of a record is \<open>(rating - 3) / 2\<close>, with rating 3 for
  a rating that is not a number. The three accumulators are the sums over the records of
  \<open>max 0 polarity * weight\<close>, of \<open>max 0 (- polarity) * weight\<close> and of
  \<open>(1 - |polarity|) * weight * neutralFactor\<close>. Each reported percentage is its accumulator
  divided by the sum of the three accumulators plus \<open>10^-9\<close>, rounded to four decimals.
\<close>

theorem sentiment_percentages_rounded:
  "rawPos (process_all now parse (destructure os) rs) =
     (\<Sum>i<length rs. max 0 ((rating_or_3 (rs ! i) - 3) / 2)
        * weight_at now parse (destructure os) rs i) \<and>
   rawNeg (process_all now parse (destructure os) rs) =
     (\<Sum>i<length rs. max 0 (- ((rating_or_3 (rs ! i) - 3) / 2))
        * weight_at now parse (destructure os) rs i) \<and>
   rawNeu (process_all now parse (destructure os) rs) =
     (\<Sum>i<length rs. (1 - \<bar>(rating_or_3 (rs ! i) - 3) / 2\<bar>)
        * weight_at now parse (destructure os) rs i * c_neutralFactor (destructure os)) \<and>
   positive (out_sentiment (computeAdjustedAggregates now parse rs os)) =
     toFixed 4 (rawPos (process_all now parse (destructure os) rs)
        / (rawPos (process_all now parse (destructure os) rs)
           + rawNeg (process_all now parse (destructure os) rs)
           + rawNeu (process_all now parse (destructure os) rs) + 1 / 10 ^ 9)) \<and>
   negative (out_sentiment (computeAdjustedAggregates now parse rs os)) =
     toFixed 4 (rawNeg (process_all now parse (destructure os) rs)
        / (rawPos (process_all now parse (destructure os) rs)
           + rawNeg (process_all now parse (destructure os) rs)
           + rawNeu (process_all now parse (destructure os) rs) + 1 / 10 ^ 9)) \<and>
   neutral (out_sentiment (computeAdjustedAggregates now parse rs os)) =
     toFixed 4 (rawNeu (process_all now parse (destructure os) rs)
        / (rawPos (process_all now parse (destructure os) rs)
           + rawNeg (process_all now parse (destructure os) rs)
           + rawNeu (process_all now parse (destructure os) rs) + 1 / 10 ^ 9))"
  unfolding returned_fields positivePct_def negativePct_def neutralPct_def weightedTotal_def
    tiny_def
  using rawPos_sum [of now parse "destructure os" rs] rawNeg_sum [of now parse "destructure os" rs]
    rawNeu_sum [of now parse "destructure os" rs]
  by simp

theorem sentiment_percentages_rounded_witness:
  "rawPos (process_all 2592000000 parse_fixed (destructure no_opts) [dup_a]) = 9 / 10 \<and>
   negative (out_sentiment (computeAdjustedAggregates 2592000000 parse_fixed [dup_a] no_opts)) = 0 \<and>
   neutral (out_sentiment (computeAdjustedAggregates 2592000000 parse_fixed [dup_a] no_opts)) = 0"
  using sentiment_percentages_rounded [of 2592000000 parse_fixed no_opts "[dup_a]"]
  by (simp add: state_dup_a toFixed_def)

text \<open>
  The claim as it is worded, without the rounding, fails on a single record rated 5 with
  confidence 0.9 and age zero: the quotient is \<open>0.9 / (0.9 + 10^-9)\<close> and the reported
  percentage is 1.
\<close>

theorem sentiment_percentage_counterexample:
  "positive (out_sentiment (computeAdjustedAggregates 2592000000 parse_fixed [dup_a] no_opts)) = 1 \<and>
   rawPos (process_all 2592000000 parse_fixed (destructure no_opts) [dup_a])
     / (rawPos (process_all 2592000000 parse_fixed (destructure no_opts) [dup_a])
        + rawNeg (process_all 2592000000 parse_fixed (destructure no_opts) [dup_a])
        + rawNeu (process_all 2592000000 parse_fixed (destructure no_opts) [dup_a]) + tiny)
     = 900000000 / 900000001 \<and>
   positive (out_sentiment (computeAdjustedAggregates 2592000000 parse_fixed [dup_a] no_opts)) \<noteq>
   rawPos (process_all 2592000000 parse_fixed (destructure no_opts) [dup_a])
     / (rawPos (process_all 2592000000 parse_fixed (destructure no_opts) [dup_a])
        + rawNeg (process_all 2592000000 parse_fixed (destructure no_opts) [dup_a])
        + rawNeu (process_all 2592000000 parse_fixed (destructure no_opts) [dup_a]) + tiny)"
  by (simp add: returned_fields positivePct_def weightedTotal_def state_dup_a tiny_def toFixed_def)

text \<open>
  Claim C5. The flag \<open>insufficientData\<close> is true exactly when the effective total, the sum
  of the weights of all records, is below 5; a total of exactly 5 gives false.
\<close>

theorem insufficientData_iff:
  "insufficientData (computeAdjustedAggregates now parse rs os) =
     ((\<Sum>i<length rs. weight_at now parse (destructure os) rs i) < 5) \<and>
   ((\<Sum>i<length rs. weight_at now parse (destructure os) rs i) = 5 \<longrightarrow>
      \<not> insufficientData (computeAdjustedAggregates now parse rs os))"
  by (simp add: returned_fields totalEff_sum)

theorem insufficientData_iff_witness:
  "(\<Sum>i<length five_fresh.
      weight_at 2592000000 parse_fixed (destructure no_opts) five_fresh i) = 5 \<and>
   \<not> insufficientData (computeAdjustedAggregates 2592000000 parse_fixed five_fresh no_opts)"
proof -
  have l: "length five_fresh = 5" by (simp add: five_fresh_def)
  have s: "(\<Sum>i<length five_fresh.
      weight_at 2592000000 parse_fixed (destructure no_opts) five_fresh i) = 5"
    by (simp add: l weights_five_fresh)
  show ?thesis
    using insufficientData_iff [of 2592000000 parse_fixed five_fresh no_opts] s by simp
qed

text \<open>
  Claim C6. For a record with a non-empty theme list, the iteration raises the weighted
  count and the effective count of every theme of the record by the record's weight
  divided by the number of its themes, once for each occurrence of the theme in the list
  (so exactly by that fraction when the themes are distinct, which is less than the full
  weight when the record carries several themes and its weight is positive), leaves every
  other theme as it was, and the increments of the record's themes add up to the record's
  weight. Over the whole batch the effective count of a theme is the sum of these
  fractions, and the returned theme numbers are that count rounded: \<open>positiveThemes\<close> to
  four decimals and the \<open>effCount\<close> of \<open>themeStats\<close> to three.
\<close>

theorem theme_weight_split:
  assumes "i < length rs" and "o_themes (rs ! i) = Some ts" and "ts \<noteq> []"
  shows "(\<forall>t\<in>set ts.
            weightedCount_of (themeMap (state_at now parse cfg rs (Suc i))) (theme_name t) =
              weightedCount_of (themeMap (state_at now parse cfg rs i)) (theme_name t)
                + real (count_list (map theme_name ts) (theme_name t))
                    * (weight_at now parse cfg rs i / real (length ts))) \<and>
         (distinct (map theme_name ts) \<longrightarrow>
            (\<forall>t\<in>set ts.
               weightedCount_of (themeMap (state_at now parse cfg rs (Suc i))) (theme_name t) =
                 weightedCount_of (themeMap (state_at now parse cfg rs i)) (theme_name t)
                   + weight_at now parse cfg rs i / real (length ts))) \<and>
         (\<forall>k. k \<notin> theme_name ` set ts \<longrightarrow>
            weightedCount_of (themeMap (state_at now parse cfg rs (Suc i))) k =
              weightedCount_of (themeMap (state_at now parse cfg rs i)) k) \<and>
         (\<Sum>k\<in>theme_name ` set ts.
            weightedCount_of (themeMap (state_at now parse cfg rs (Suc i))) k
              - weightedCount_of (themeMap (state_at now parse cfg rs i)) k) =
           weight_at now parse cfg rs i \<and>
         (\<forall>t\<in>set ts.
            effCount_of (themeMap (state_at now parse cfg rs (Suc i))) (theme_name t) =
              effCount_of (themeMap (state_at now parse cfg rs i)) (theme_name t)
                + real (count_list (map theme_name ts) (theme_name t))
                    * (weight_at now parse cfg rs i / real (length ts))) \<and>
         (distinct (map theme_name ts) \<longrightarrow>
            (\<forall>t\<in>set ts.
               effCount_of (themeMap (state_at now parse cfg rs (Suc i))) (theme_name t) =
                 effCount_of (themeMap (state_at now parse cfg rs i)) (theme_name t)
                   + weight_at now parse cfg rs i / real (length ts))) \<and>
         (distinct (map theme_name ts) \<and> 1 < length ts \<and> 0 < weight_at now parse cfg rs i \<longrightarrow>
            (\<forall>t\<in>set ts.
               effCount_of (themeMap (state_at now parse cfg rs (Suc i))) (theme_name t)
                 - effCount_of (themeMap (state_at now parse cfg rs i)) (theme_name t)
               < weight_at now parse cfg rs i)) \<and>
         (\<forall>k. k \<notin> theme_name ` set ts \<longrightarrow>
            effCount_of (themeMap (state_at now parse cfg rs (Suc i))) k =
              effCount_of (themeMap (state_at now parse cfg rs i)) k) \<and>
         (\<Sum>k\<in>theme_name ` set ts.
            effCount_of (themeMap (state_at now parse cfg rs (Suc i))) k
              - effCount_of (themeMap (state_at now parse cfg rs i)) k) =
           weight_at now parse cfg rs i \<and>
         effCount_of (themeMap (process_all now parse cfg rs)) name =
           (\<Sum>j<length rs. real (count_list (map theme_name (theme_list (rs ! j))) name)
              * (weight_at now parse cfg rs j / real (length (theme_list (rs ! j))))) \<and>
         map_of (positiveThemes (out_themes (computeAdjustedAggregates now parse rs os))) name =
           map_option (\<lambda>a. toFixed 4 (effCount a))
             (map_of (themeMap (process_all now parse (destructure os) rs)) name) \<and>
         map_option stat_effCount
           (map_of (themeStats (out_themes (computeAdjustedAggregates now parse rs os))) name) =
           map_option (\<lambda>a. toFixed 3 (effCount a))
             (map_of (themeMap (process_all now parse (destructure os) rs)) name)"
proof -
  let ?w = "weight_at now parse cfg rs i"
  let ?names = "map theme_name ts"
  let ?wc = "\<lambda>j. weightedCount_of (themeMap (state_at now parse cfg rs j))"
  let ?ec = "\<lambda>j. effCount_of (themeMap (state_at now parse cfg rs j))"
  have tl: "theme_list (rs ! i) = ts"
    using assms by (simp add: theme_list_def)
  have step: "?wc (Suc i) k = ?wc i k + real (count_list ?names k) * (?w / real (length ts))"
    for k
    using assms(1) by (simp add: themeMap_Suc weightedCount_of_credit_themes tl)
  have step_e: "?ec (Suc i) k = ?ec i k + real (count_list ?names k) * (?w / real (length ts))"
    for k
    using assms(1) by (simp add: effCount_of_Suc tl)
  have one: "count_list ?names (theme_name t) = 1" if "distinct ?names" "t \<in> set ts" for t
    using that by (simp add: count_list_distinct)
  have zero: "count_list ?names k = 0" if "k \<notin> theme_name ` set ts" for k
    using that by (simp add: count_list_0_iff)
  have share: "(\<Sum>k\<in>set ?names. real (count_list ?names k) * (?w / real (length ts))) = ?w"
  proof -
    have "(\<Sum>k\<in>set ?names. real (count_list ?names k) * (?w / real (length ts)))
          = (\<Sum>k\<in>set ?names. real (count_list ?names k)) * (?w / real (length ts))"
      by (simp only: sum_distrib_right)
    also have "\<dots> = real (length ?names) * (?w / real (length ts))"
      by (simp only: sum_count_names)
    also have "\<dots> = ?w"
      using assms(3) by simp
    finally show ?thesis .
  qed
  have total: "(\<Sum>k\<in>theme_name ` set ts. ?wc (Suc i) k - ?wc i k) = ?w"
    using share by (simp add: step)
  have total_e: "(\<Sum>k\<in>theme_name ` set ts. ?ec (Suc i) k - ?ec i k) = ?w"
    using share by (simp add: step_e)
  have less: "?w / real (length ts) < ?w" if "1 < length ts" "0 < ?w"
  proof -
    from that(1) have "1 < real (length ts)" by simp
    with that(2) show ?thesis by (simp add: divide_less_eq)
  qed
  have part: "?ec (Suc i) (theme_name t) - ?ec i (theme_name t) < ?w"
    if "distinct ?names" "1 < length ts" "0 < ?w" "t \<in> set ts" for t
    using one [OF that(1) that(4)] less [OF that(2) that(3)] by (simp add: step_e)
  have w1: "\<forall>t\<in>set ts. ?wc (Suc i) (theme_name t) =
      ?wc i (theme_name t) + real (count_list ?names (theme_name t)) * (?w / real (length ts))"
    by (simp add: step)
  have w2: "distinct ?names \<longrightarrow>
      (\<forall>t\<in>set ts. ?wc (Suc i) (theme_name t) = ?wc i (theme_name t) + ?w / real (length ts))"
    by (simp add: step one)
  have w3: "\<forall>k. k \<notin> theme_name ` set ts \<longrightarrow> ?wc (Suc i) k = ?wc i k"
    by (simp add: step zero)
  have e1: "\<forall>t\<in>set ts. ?ec (Suc i) (theme_name t) =
      ?ec i (theme_name t) + real (count_list ?names (theme_name t)) * (?w / real (length ts))"
    by (simp add: step_e)
  have e2: "distinct ?names \<longrightarrow>
      (\<forall>t\<in>set ts. ?ec (Suc i) (theme_name t) = ?ec i (theme_name t) + ?w / real (length ts))"
    by (simp add: step_e one)
  have e3: "distinct ?names \<and> 1 < length ts \<and> 0 < ?w \<longrightarrow>
      (\<forall>t\<in>set ts. ?ec (Suc i) (theme_name t) - ?ec i (theme_name t) < ?w)"
    using part by blast
  have e4: "\<forall>k. k \<notin> theme_name ` set ts \<longrightarrow> ?ec (Suc i) k = ?ec i k"
    by (simp add: step_e zero)
  show ?thesis
    using w1 w2 w3 total e1 e2 e3 e4 total_e effCount_of_sum [of now parse cfg rs name]
      reported_theme_counts [of now parse rs os name]
    by blast
qed

theorem theme_weight_split_witness:
  "0 < length [aged_30, undated] \<and>
   o_themes ([aged_30, undated] ! 0) = Some [Some ''Durability'', Some ''Comfort''] \<and>
   [Some ''Durability'', Some ''Comfort''] \<noteq> [] \<and>
   distinct (map theme_name [Some ''Durability'', Some ''Comfort'']) \<and>
   1 < length [Some ''Durability'', Some ''Comfort''] \<and>
   weight_at 2592000000 parse_fixed (destructure no_opts) [aged_30, undated] 0 = 9 / 20 \<and>
   weightedCount_of
     (themeMap (state_at 2592000000 parse_fixed (destructure no_opts) [aged_30, undated] (Suc 0)))
     ''Durability'' = 9 / 40 \<and>
   weightedCount_of
     (themeMap (state_at 2592000000 parse_fixed (destructure no_opts) [aged_30, undated] (Suc 0)))
     ''Comfort'' = 9 / 40 \<and>
   weightedCount_of
     (themeMap (state_at 2592000000 parse_fixed (destructure no_opts) [aged_30, undated] (Suc 0)))
     ''Other'' = 0 \<and>
   effCount_of
     (themeMap (state_at 2592000000 parse_fixed (destructure no_opts) [aged_30, undated] (Suc 0)))
     ''Durability'' = 9 / 40 \<and>
   effCount_of
     (themeMap (state_at 2592000000 parse_fixed (destructure no_opts) [aged_30, undated] (Suc 0)))
     ''Comfort'' = 9 / 40 \<and>
   effCount_of
     (themeMap (state_at 2592000000 parse_fixed (destructure no_opts) [aged_30, undated] (Suc 0)))
     ''Other'' = 0 \<and>
   effCount_of
     (themeMap (state_at 2592000000 parse_fixed (destructure no_opts) [aged_30, undated] (Suc 0)))
     ''Durability''
     - effCount_of
         (themeMap (state_at 2592000000 parse_fixed (destructure no_opts) [aged_30, undated] 0))
         ''Durability''
     < weight_at 2592000000 parse_fixed (destructure no_opts) [aged_30, undated] 0 \<and>
   effCount_of
     (themeMap (process_all 2592000000 parse_fixed (destructure no_opts) [aged_30, undated]))
     ''Durability'' = 9 / 40 \<and>
   map_of
     (positiveThemes
        (out_themes (computeAdjustedAggregates 2592000000 parse_fixed [aged_30, undated] no_opts)))
     ''Durability'' = Some (9 / 40) \<and>
   map_option stat_effCount
     (map_of
        (themeStats
           (out_themes (computeAdjustedAggregates 2592000000 parse_fixed [aged_30, undated] no_opts)))
        ''Durability'') = Some (9 / 40)"
proof -
  let ?ts = "[Some ''Durability'', Some ''Comfort'']"
  let ?rs = "[aged_30, undated]"
  let ?w = "weight_at 2592000000 parse_fixed (destructure no_opts) ?rs 0"
  let ?before = "themeMap (state_at 2592000000 parse_fixed (destructure no_opts) ?rs 0)"
  let ?after = "themeMap (state_at 2592000000 parse_fixed (destructure no_opts) ?rs (Suc 0))"
  let ?final = "themeMap (process_all 2592000000 parse_fixed (destructure no_opts) ?rs)"
  have l: "0 < length ?rs" by simp
  have t: "o_themes (?rs ! 0) = Some ?ts"
    by (simp add: aged_30_def mk_def)
  have n: "?ts \<noteq> []" "1 < length ?ts" by simp_all
  have d: "distinct (map theme_name ?ts)"
    by (simp add: theme_names_aged_30)
  have o: "''Other'' \<notin> theme_name ` set ?ts"
    by (simp add: theme_names_aged_30)
  note split = theme_weight_split [of 0 ?rs ?ts 2592000000 parse_fixed
      "destructure no_opts" "''Durability''" no_opts, OF l t n(1)]
  from split d have each: "\<forall>x\<in>set ?ts.
      weightedCount_of ?after (theme_name x) =
        weightedCount_of ?before (theme_name x) + ?w / real (length ?ts)"
    by blast
  from split d have each_e: "\<forall>x\<in>set ?ts.
      effCount_of ?after (theme_name x) = effCount_of ?before (theme_name x) + ?w / real (length ?ts)"
    by blast
  from each have a: "weightedCount_of ?after ''Durability'' = 9 / 40"
    by (simp add: theme_names_aged_30 themeMap_start weight_aged_30)
  from each have b: "weightedCount_of ?after ''Comfort'' = 9 / 40"
    by (simp add: theme_names_aged_30 themeMap_start weight_aged_30)
  from split o have "weightedCount_of ?after ''Other'' = weightedCount_of ?before ''Other''"
    by blast
  then have c: "weightedCount_of ?after ''Other'' = 0"
    by (simp only: themeMap_start)
  from each_e have ea: "effCount_of ?after ''Durability'' = 9 / 40"
    by (simp add: theme_names_aged_30 effCount_start weight_aged_30)
  from each_e have eb: "effCount_of ?after ''Comfort'' = 9 / 40"
    by (simp add: theme_names_aged_30 effCount_start weight_aged_30)
  from split o have "effCount_of ?after ''Other'' = effCount_of ?before ''Other''"
    by blast
  then have ec: "effCount_of ?after ''Other'' = 0"
    by (simp only: effCount_start)
  have pos: "0 < ?w" by (simp add: weight_aged_30)
  from split d n(2) pos have "\<forall>x\<in>set ?ts.
      effCount_of ?after (theme_name x) - effCount_of ?before (theme_name x) < ?w"
    by blast
  then have lt: "effCount_of ?after ''Durability'' - effCount_of ?before ''Durability'' < ?w"
    by (simp add: theme_names_aged_30)
  from split have "effCount_of ?final ''Durability'' =
      (\<Sum>j<length ?rs. real (count_list (map theme_name (theme_list (?rs ! j))) ''Durability'')
         * (weight_at 2592000000 parse_fixed (destructure no_opts) ?rs j
              / real (length (theme_list (?rs ! j)))))"
    by blast
  then have f: "effCount_of ?final ''Durability'' = 9 / 40"
    by (simp add: lessThan_Suc theme_list_samples theme_names_aged_30 theme_name_other
        weight_aged_30)
  from effCount_of_Some [OF f] obtain acc
    where acc: "map_of ?final ''Durability'' = Some acc" "effCount acc = 9 / 40"
    by auto
  from split have "map_of (positiveThemes (out_themes
        (computeAdjustedAggregates 2592000000 parse_fixed ?rs no_opts))) ''Durability'' =
      map_option (\<lambda>a. toFixed 4 (effCount a)) (map_of ?final ''Durability'')"
    by blast
  then have p: "map_of (positiveThemes (out_themes
        (computeAdjustedAggregates 2592000000 parse_fixed ?rs no_opts))) ''Durability'' =
      Some (9 / 40)"
    by (simp add: acc toFixed_9_40)
  have tf3: "toFixed 3 (9 / 40) = 9 / 40" by (simp add: toFixed_def)
  from split have "map_option stat_effCount (map_of (themeStats (out_themes
        (computeAdjustedAggregates 2592000000 parse_fixed ?rs no_opts))) ''Durability'') =
      map_option (\<lambda>a. toFixed 3 (effCount a)) (map_of ?final ''Durability'')"
    by blast
  then have s: "map_option stat_effCount (map_of (themeStats (out_themes
        (computeAdjustedAggregates 2592000000 parse_fixed ?rs no_opts))) ''Durability'') =
      Some (9 / 40)"
    by (simp add: acc tf3)
  show ?thesis using l t n d a b c ea eb ec lt f p s weight_aged_30 by blast
qed

text \<open>
  Claim C10. A record whose rating is not a number is treated as rated 3, with polarity
  zero: the iteration leaves the positive and the negative total as they were, adds
  \<open>weight * neutralFactor\<close> to the neutral total and adds the full weight to the effective
  total.
\<close>

theorem non_numeric_rating_neutral:
  "i < length rs \<and> o_rating (rs ! i) = None \<longrightarrow>
     rating_or_3 (rs ! i) = 3 \<and> s_final (rs ! i) = 0 \<and>
     rawPos (state_at now parse cfg rs (Suc i)) = rawPos (state_at now parse cfg rs i) \<and>
     rawNeg (state_at now parse cfg rs (Suc i)) = rawNeg (state_at now parse cfg rs i) \<and>
     rawNeu (state_at now parse cfg rs (Suc i)) =
       rawNeu (state_at now parse cfg rs i) + weight_at now parse cfg rs i * c_neutralFactor cfg \<and>
     totalEff (state_at now parse cfg rs (Suc i)) =
       totalEff (state_at now parse cfg rs i) + weight_at now parse cfg rs i"
  by (simp add: state_at_Suc process_record_def Let_def weight_at_def rating_or_3_def s_final_def
      posContrib_def negContrib_def neuContrib_def)

theorem non_numeric_rating_neutral_witness:
  "1 < length [aged_30, undated] \<and> o_rating ([aged_30, undated] ! 1) = None \<and>
   rawPos (state_at 2592000000 parse_fixed (destructure no_opts) [aged_30, undated] 2) =
     rawPos (state_at 2592000000 parse_fixed (destructure no_opts) [aged_30, undated] 1) \<and>
   rawNeg (state_at 2592000000 parse_fixed (destructure no_opts) [aged_30, undated] 2) =
     rawNeg (state_at 2592000000 parse_fixed (destructure no_opts) [aged_30, undated] 1) \<and>
   rawNeu (state_at 2592000000 parse_fixed (destructure no_opts) [aged_30, undated] 2) =
     rawNeu (state_at 2592000000 parse_fixed (destructure no_opts) [aged_30, undated] 1)
       + weight_at 2592000000 parse_fixed (destructure no_opts) [aged_30, undated] 1 * (1 / 2) \<and>
   totalEff (state_at 2592000000 parse_fixed (destructure no_opts) [aged_30, undated] 2) =
     totalEff (state_at 2592000000 parse_fixed (destructure no_opts) [aged_30, undated] 1)
       + weight_at 2592000000 parse_fixed (destructure no_opts) [aged_30, undated] 1"
proof -
  have u: "o_rating undated = None" by (simp add: undated_def)
  show ?thesis
    using non_numeric_rating_neutral [of 1 "[aged_30, undated]" 2592000000 parse_fixed
        "destructure no_opts"] u
    by (simp add: numeral_2_eq_2 default_config(3))
qed

section \<open>Properties of the insight rule engine\<close>

subsection \<open>What a rule emits\<close>

lemma getThemeStats_tagged:
  "getThemeStats fb name =
     (if tagged name fb = [] then None
      else Some \<lparr> st_total = length (tagged name fb),
                  st_negative = length (negatives (tagged name fb)),
                  percentage =
                    real (length (negatives (tagged name fb))) / real (length (tagged name fb))
                      * 100 \<rparr>)"
  by (simp add: getThemeStats_def tagged_def negatives_def Let_def)

lemma emits_append: "emits ty p (xs @ ys) = (emits ty p xs \<or> emits ty p ys)"
  by (simp add: emits_def)

lemma emits_theme_rule_durability:
  "emits ty p (theme_rule fb name th durability_insight) =
     (ty = ''durability'' \<and> p = High \<and> tagged name fb \<noteq> [] \<and>
      real (length (negatives (tagged name fb))) / real (length (tagged name fb)) * 100 > th)"
  by (auto simp: theme_rule_def getThemeStats_tagged emits_def durability_insight_def)

lemma emits_theme_rule_comfort:
  "emits ty p (theme_rule fb name th comfort_insight) =
     (ty = ''comfort'' \<and> p = Medium \<and> tagged name fb \<noteq> [] \<and>
      real (length (negatives (tagged name fb))) / real (length (tagged name fb)) * 100 > th)"
  by (auto simp: theme_rule_def getThemeStats_tagged emits_def comfort_insight_def)

lemma emits_theme_rule_appearance:
  "emits ty p (theme_rule fb name th appearance_insight) =
     (ty = ''appearance'' \<and> p = High \<and> tagged name fb \<noteq> [] \<and>
      real (length (negatives (tagged name fb))) / real (length (tagged name fb)) * 100 > th)"
  by (auto simp: theme_rule_def getThemeStats_tagged emits_def appearance_insight_def)

lemma emits_analyzeThemes:
  "emits ty p (analyzeThemes (Some td) (Some fb)) =
     (emits ty p (theme_rule fb ''Durability'' 40 durability_insight) \<or>
      emits ty p (theme_rule fb ''Comfort'' 30 comfort_insight) \<or>
      emits ty p (theme_rule fb ''Appearance'' 60 appearance_insight))"
proof (cases "fb = []")
  case True
  then show ?thesis
    by (simp add: analyzeThemes_def emits_def theme_rule_def getThemeStats_def)
next
  case False
  then show ?thesis by (simp add: analyzeThemes_def emits_append)
qed

lemmas basic_rules = all_rules_def emits_basic_def rule_strong_positive_def
  rule_negative_trend_def rule_well_received_def rule_mixed_def rule_low_rating_def
  rule_durability_def rule_comfort_def rule_appearance_def

lemma emits_basic_durability:
  "emits_basic ''durability'' High (all_rules sd td fb) =
     (theme_total td ''durability'' > 0 \<and>
      real (negativeDurability fb) / theme_total td ''durability'' * 100 > 40)"
proof -
  have z: "negativeDurability [] = 0" by (simp add: negativeDurability_def)
  show ?thesis by (cases "fb = []") (auto simp: basic_rules z)
qed

lemma emits_basic_comfort:
  "emits_basic ''comfort'' Medium (all_rules sd td fb) =
     (theme_total td ''comfort'' > 0 \<and>
      real (comfortIssues fb) / theme_total td ''comfort'' * 100 > 50)"
proof -
  have z: "comfortIssues [] = 0" by (simp add: comfortIssues_def)
  show ?thesis by (cases "fb = []") (auto simp: basic_rules z)
qed

lemma foldl_rating: "foldl (\<lambda>sum f. sum + rating f) a fb = a + sum_list (map rating fb)"
  by (induction fb arbitrary: a) simp_all

lemma avgRating_mean: "avgRating fb = sum_list (map rating fb) / real (length fb)"
  by (simp add: avgRating_def foldl_rating)

subsection \<open>Facts about the sample inputs\<close>

lemma fields:
  "themes (review pid r txt l c ts) = ts"
  "rating (review pid r txt l c ts) = r"
  "label (sentiment (review pid r txt l c ts)) = l"
  "confidence (sentiment (review pid r txt l c ts)) = c"
  "review_text (review pid r txt l c ts) = txt"
  "product_id (review pid r txt l c ts) = pid"
  by (simp_all add: review_def)

lemma tagged_unsure:
  "tagged ''Durability'' [unsure] = [unsure]"
  "negatives [unsure] = [unsure]"
  "confident_negatives [unsure] = []"
  by (simp_all add: tagged_def negatives_def confident_negatives_def unsure_def fields)

lemma tagged_scenario:
  "tagged ''Durability'' scenario = replicate 4 broken"
  "negatives (replicate 4 broken) = replicate 4 broken"
  by (simp_all add: tagged_def negatives_def scenario_def happy_def broken_def fields
      filter_replicate)

lemma lower_names:
  "toLowerCase ''Durability'' = ''durability''"
  "toLowerCase ''Appearance'' = ''appearance''"
  "toLowerCase ''Comfort'' = ''comfort''"
  "toLowerCase ''Fits well'' = ''fits well''"
  "toLowerCase ''It pinches my finger'' = ''it pinches my finger''"
  by (simp_all add: toLowerCase_def toLowerCase_char_def)

lemma mentions_scenario:
  "mentions ''durability'' broken" "\<not> mentions ''durability'' happy"
  by (simp_all add: mentions_def broken_def happy_def fields lower_names startsWith_def)

lemma negativeDurability_scenario: "negativeDurability scenario = 4"
proof -
  have b: "label (sentiment broken) = Negative" "confidence (sentiment broken) = 9 / 10"
    by (simp_all add: broken_def fields)
  show ?thesis
    by (simp add: negativeDurability_def scenario_def mentions_scenario filter_replicate b)
qed

lemma theme_total_scenario: "theme_total scenario_themes ''durability'' = 4"
  by (simp add: theme_total_def scenario_themes_def lower_names startsWith_def)

lemma scenario_nonempty: "scenario \<noteq> []"
  by (simp add: scenario_def)

lemma mean_scenario: "sum_list (map rating scenario) / real (length scenario) = 34 / 10"
  by (simp add: scenario_def sum_list_replicate happy_def broken_def fields)

lemma avg_scenario: "avgRating scenario = 34 / 10"
  by (simp add: avgRating_mean mean_scenario)

lemma comfort_sample_counts:
  "tagged ''Comfort'' comfort_sample = comfort_sample"
  "length (negatives comfort_sample) = 2"
  "length comfort_sample = 5"
  "comfort_sample \<noteq> []"
  by (simp_all add: tagged_def negatives_def comfort_sample_def snug_def pinches_def fields)

lemma comfortIssues_sample: "comfortIssues comfort_sample = 2"
  by (simp add: comfortIssues_def comfort_sample_def snug_def pinches_def fields mentions_def
      lower_names startsWith_def)

lemma theme_total_comfort: "theme_total comfort_themes ''comfort'' = 5"
  by (simp add: theme_total_def comfort_themes_def lower_names startsWith_def)

subsection \<open>The claims\<close>

text \<open>
  Claim C1, as amended. The two implementations of the Durability rule differ. In the
  component, with at least one record tagged Durability, \<open>analyzeThemes\<close> emits the
  high-priority durability insight exactly when the records labelled Negative are more
  than 40 percent of the records tagged Durability, whatever their confidence. The
  utility \<open>generateInsights\<close> emits it exactly when the aggregate count of the durability
  themes is positive and the records that mention durability, are labelled Negative and
  have confidence at least 0.6 are more than 40 percent of that aggregate count.
\<close>

theorem durability_rule_variants:
  "(tagged ''Durability'' fb \<noteq> [] \<longrightarrow>
      emits ''durability'' High (analyzeThemes (Some td) (Some fb)) =
        (real (length (negatives (tagged ''Durability'' fb)))
           / real (length (tagged ''Durability'' fb)) * 100 > 40)) \<and>
   (\<exists>xs. generateInsights (Some sd) (Some td) (Given fb) = Inr xs \<and>
      emits_basic ''durability'' High xs =
        (theme_total td ''durability'' > 0 \<and>
         real (negativeDurability fb) / theme_total td ''durability'' * 100 > 40))"
proof -
  have a: "tagged ''Durability'' fb \<noteq> [] \<longrightarrow>
      emits ''durability'' High (analyzeThemes (Some td) (Some fb)) =
        (real (length (negatives (tagged ''Durability'' fb)))
           / real (length (tagged ''Durability'' fb)) * 100 > 40)"
    by (simp add: emits_analyzeThemes emits_theme_rule_durability emits_theme_rule_comfort
        emits_theme_rule_appearance)
  show ?thesis using a by (simp add: generateInsights_def emits_basic_durability)
qed

theorem durability_rule_variants_witness:
  "tagged ''Durability'' scenario \<noteq> [] \<and>
   emits ''durability'' High (analyzeThemes (Some scenario_themes) (Some scenario)) \<and>
   (\<exists>xs. generateInsights (Some scenario_sentiment) (Some scenario_themes) (Given scenario)
            = Inr xs \<and> emits_basic ''durability'' High xs)"
  using durability_rule_variants [of scenario scenario_themes scenario_sentiment]
  by (simp add: tagged_scenario negativeDurability_scenario theme_total_scenario)

text \<open>
  The claim as it is worded fails on \<open>analyzeThemes\<close>: for one record tagged Durability
  and labelled Negative with confidence 0.3, the claimed negative share is zero and the
  insight is emitted.
\<close>

theorem durability_confidence_counterexample:
  "tagged ''Durability'' [unsure] \<noteq> [] \<and>
   emits ''durability'' High (analyzeThemes (Some [(''Durability'', 1)]) (Some [unsure])) \<and>
   claimed_negative_share ''Durability'' [unsure] = 0 \<and>
   \<not> claimed_negative_share ''Durability'' [unsure] > 40 / 100"
  by (simp add: emits_analyzeThemes emits_theme_rule_durability claimed_negative_share_def
      tagged_unsure)

text \<open>
  Claim C7. For a non-empty collection, \<open>analyzeRatings\<close> returns exactly one insight, of
  priority critical, when the average rating is below 2.5; exactly one, of priority high,
  when the average is at least 2.5 and below 3.5; and none otherwise. An average of 3.4
  gives the high-priority insight.
\<close>

theorem rating_health_bands:
  "fb \<noteq> [] \<longrightarrow>
     (sum_list (map rating fb) / real (length fb) < 5 / 2 \<longrightarrow>
        (\<exists>i. analyzeRatings (Some fb) = [i] \<and> category i = ''Rating Health'' \<and>
              priority i = Critical)) \<and>
     (5 / 2 \<le> sum_list (map rating fb) / real (length fb) \<and>
      sum_list (map rating fb) / real (length fb) < 7 / 2 \<longrightarrow>
        (\<exists>i. analyzeRatings (Some fb) = [i] \<and> category i = ''Rating Health'' \<and>
              priority i = High)) \<and>
     (7 / 2 \<le> sum_list (map rating fb) / real (length fb) \<longrightarrow>
        analyzeRatings (Some fb) = [])"
  by (simp add: analyzeRatings_def avgRating_mean)

theorem rating_health_bands_witness:
  "scenario \<noteq> [] \<and>
   sum_list (map rating scenario) / real (length scenario) = 34 / 10 \<and>
   (\<exists>i. analyzeRatings (Some scenario) = [i] \<and> category i = ''Rating Health'' \<and>
         priority i = High) \<and>
   sum_list (map rating [broken, unsure]) / real (length [broken, unsure]) = 3 / 2 \<and>
   (\<exists>i. analyzeRatings (Some [broken, unsure]) = [i] \<and> category i = ''Rating Health'' \<and>
         priority i = Critical) \<and>
   sum_list (map rating [happy, snug]) / real (length [happy, snug]) = 9 / 2 \<and>
   analyzeRatings (Some [happy, snug]) = []"
proof -
  have r: "rating broken = 1" "rating unsure = 2" "rating happy = 5" "rating snug = 4"
    by (simp_all add: broken_def unsure_def happy_def snug_def fields)
  show ?thesis
    using rating_health_bands [of scenario] rating_health_bands [of "[broken, unsure]"]
      rating_health_bands [of "[happy, snug]"] scenario_nonempty
    by (simp add: mean_scenario r)
qed

text \<open>
  Claim C8. Both Comfort rules exist and differ. \<open>analyzeThemes\<close> emits the medium-priority
  comfort insight exactly when some record is tagged Comfort and the records labelled
  Negative are more than 30 percent of the records tagged Comfort. \<open>generateInsights\<close>
  emits its medium-priority comfort insight exactly when the aggregate count of the
  comfort themes is positive and the comfort issues are more than 50 percent of it.
\<close>

theorem comfort_rule_variants:
  "emits ''comfort'' Medium (analyzeThemes (Some td) (Some fb)) =
     (tagged ''Comfort'' fb \<noteq> [] \<and>
      real (length (negatives (tagged ''Comfort'' fb)))
        / real (length (tagged ''Comfort'' fb)) * 100 > 30) \<and>
   (\<exists>xs. generateInsights (Some sd) (Some td) (Given fb) = Inr xs \<and>
      emits_basic ''comfort'' Medium xs =
        (theme_total td ''comfort'' > 0 \<and>
         real (comfortIssues fb) / theme_total td ''comfort'' * 100 > 50))"
proof -
  have a: "emits ''comfort'' Medium (analyzeThemes (Some td) (Some fb)) =
     (tagged ''Comfort'' fb \<noteq> [] \<and>
      real (length (negatives (tagged ''Comfort'' fb)))
        / real (length (tagged ''Comfort'' fb)) * 100 > 30)"
    by (simp add: emits_analyzeThemes emits_theme_rule_durability emits_theme_rule_comfort
        emits_theme_rule_appearance)
  show ?thesis using a by (simp add: generateInsights_def emits_basic_comfort)
qed

theorem comfort_rule_variants_witness:
  "real (length (negatives (tagged ''Comfort'' comfort_sample)))
     / real (length (tagged ''Comfort'' comfort_sample)) * 100 = 40 \<and>
   real (comfortIssues comfort_sample) / theme_total comfort_themes ''comfort'' * 100 = 40 \<and>
   emits ''comfort'' Medium (analyzeThemes (Some comfort_themes) (Some comfort_sample)) \<and>
   (\<exists>xs. generateInsights (Some scenario_sentiment) (Some comfort_themes) (Given comfort_sample)
            = Inr xs \<and> \<not> emits_basic ''comfort'' Medium xs)"
  using comfort_rule_variants [of comfort_themes comfort_sample scenario_sentiment]
  by (simp add: comfort_sample_counts comfortIssues_sample theme_total_comfort)

text \<open>
  Claim C9, as amended. \<open>generateInsights\<close> returns the empty list, without an error,
  whenever the sentiment snapshot or the theme snapshot is missing, and treats an absent
  record collection as the empty one, for which its record rules emit nothing. Every
  analysis function of the component returns the empty list when an input it needs is
  missing. \<open>handleGenerateInsights\<close>, however, evaluates no rule when one of its three
  inputs is still missing after the optional refresh: it ends in the error
  \<open>Insufficient data to generate insights.\<close>
\<close>

theorem missing_input_behaviour:
  "generateInsights None tData fArg = Inr [] \<and>
   generateInsights sData None fArg = Inr [] \<and>
   generateInsights (Some sd) (Some td) Undefined = Inr (all_rules sd td []) \<and>
   rule_low_rating [] = [] \<and> rule_durability sd td [] = [] \<and> rule_comfort sd td [] = [] \<and>
   rule_appearance sd td [] = [] \<and>
   analyzeOverallHealth None = [] \<and>
   analyzeThemes None feedback = [] \<and> analyzeThemes tData None = [] \<and>
   analyzeRatings None = [] \<and> detectContradictions None = [] \<and>
   analyzeByProduct None = [] \<and> identifyQuickWins None = [] \<and>
   (sData = None \<or> tData = None \<or> feedback = None \<longrightarrow>
      handleGenerateInsights sData tData feedback None = Inl insufficient \<and>
      handleGenerateInsights sData tData feedback (Some None) = Inl insufficient) \<and>
   (r_sentiment d = None \<or> r_themes d = None \<or> r_feedback d = None \<longrightarrow>
      sData = None \<or> tData = None \<or> feedback = None \<longrightarrow>
      handleGenerateInsights sData tData feedback (Some (Some d)) = Inl insufficient)"
proof -
  have g: "generateInsights None tData fArg = Inr []" "generateInsights sData None fArg = Inr []"
    "generateInsights (Some sd) (Some td) Undefined = Inr (all_rules sd td [])"
    by (simp_all add: generateInsights_def split: option.splits)
  have r: "rule_low_rating [] = []" "rule_durability sd td [] = []" "rule_comfort sd td [] = []"
    "rule_appearance sd td [] = []"
    by (simp_all add: rule_low_rating_def rule_durability_def rule_comfort_def rule_appearance_def)
  have a: "analyzeOverallHealth None = []" "analyzeThemes None feedback = []"
    "analyzeThemes tData None = []" "analyzeRatings None = []" "detectContradictions None = []"
    "analyzeByProduct None = []" "identifyQuickWins None = []"
    by (simp_all add: analyzeOverallHealth_def analyzeThemes_def analyzeRatings_def
        detectContradictions_def analyzeByProduct_def identifyQuickWins_def split: option.splits)
  have h: "sData = None \<or> tData = None \<or> feedback = None \<longrightarrow>
      handleGenerateInsights sData tData feedback None = Inl insufficient \<and>
      handleGenerateInsights sData tData feedback (Some None) = Inl insufficient"
    by (auto simp: handleGenerateInsights_def insufficient_def)
  have h': "r_sentiment d = None \<or> r_themes d = None \<or> r_feedback d = None \<longrightarrow>
      sData = None \<or> tData = None \<or> feedback = None \<longrightarrow>
      handleGenerateInsights sData tData feedback (Some (Some d)) = Inl insufficient"
    by (auto simp: handleGenerateInsights_def insufficient_def)
  show ?thesis using g r a h h' by blast
qed

theorem missing_input_behaviour_witness:
  "generateInsights None (Some scenario_themes) (Given scenario) = Inr [] \<and>
   generateInsights (Some scenario_sentiment) None Null = Inr [] \<and>
   handleGenerateInsights None (Some scenario_themes) (Some scenario) None = Inl insufficient \<and>
   handleGenerateInsights (Some scenario_sentiment) (Some scenario_themes) None (Some None) =
     Inl insufficient \<and>
   handleGenerateInsights (Some scenario_sentiment) None (Some scenario)
     (Some (Some \<lparr> r_sentiment = Some scenario_sentiment, r_themes = None,
                    r_feedback = Some scenario \<rparr>)) = Inl insufficient"
  using
    missing_input_behaviour [where sData = None and tData = "Some scenario_themes"
      and fArg = "Given scenario" and feedback = "Some scenario"]
    missing_input_behaviour [where sData = "Some scenario_sentiment" and tData = None
      and fArg = Null and feedback = "Some scenario"
      and d = "\<lparr> r_sentiment = Some scenario_sentiment, r_themes = None,
                  r_feedback = Some scenario \<rparr>"]
    missing_input_behaviour [where sData = "Some scenario_sentiment"
      and tData = "Some scenario_themes" and feedback = None]
  by simp

text \<open>
  The claim as it is worded fails. With the sentiment snapshot missing and the records of
  the scenario present, the rating rule needs only the records and would emit an insight,
  yet \<open>handleGenerateInsights\<close> ends in the error and \<open>generateInsights\<close> returns the empty
  list; and \<open>generateInsights\<close> raises a \<open>TypeError\<close> when the record collection is \<open>null\<close>
  and both snapshots are present.
\<close>

theorem missing_input_counterexample:
  "handleGenerateInsights None (Some scenario_themes) (Some scenario) None = Inl insufficient \<and>
   analyzeRatings (Some scenario) \<noteq> [] \<and>
   generateInsights None (Some scenario_themes) (Given scenario) = Inr [] \<and>
   rule_low_rating scenario \<noteq> [] \<and>
   generateInsights (Some scenario_sentiment) (Some scenario_themes) Null = Inl TypeError"
  by (simp add: handleGenerateInsights_def insufficient_def analyzeRatings_def avg_scenario
      scenario_nonempty generateInsights_def rule_low_rating_def)

end
